theory Spec2Isabelle
  imports Complex_Main
begin

section \<open>Python values, errors and builtins used by RebarShapeCutListfunc.py\<close>

text \<open>
  Python floats are modelled by the reals: every arithmetic step is exact.  A raise of
  the source is a value \<open>Inl e\<close> of the sum type \<open>py_exn + 'a\<close>.
\<close>

datatype py_exn =
  ZeroDivisionError | IndexError | AttributeError | TypeError | ValueError | SyntaxError | KeyError

definition bind_exn :: "py_exn + 'a \<Rightarrow> ('a \<Rightarrow> py_exn + 'b) \<Rightarrow> py_exn + 'b" where
  "bind_exn m f = (case m of Inl e \<Rightarrow> Inl e | Inr x \<Rightarrow> f x)"

text \<open>Float division \<open>a / b\<close>: raises ZeroDivisionError when the divisor is zero.\<close>

definition py_fdiv :: "real \<Rightarrow> real \<Rightarrow> py_exn + real" where
  "py_fdiv a b = (if b = 0 then Inl ZeroDivisionError else Inr (a / b))"

text \<open>\<open>round(x)\<close> with one argument: the nearest integer, a tie going to the even one.\<close>

definition py_round :: "real \<Rightarrow> int" where
  "py_round x =
     (let f = \<lfloor>x\<rfloor>; d = x - of_int f
      in if d < 1 / 2 then f else if 1 / 2 < d then f + 1 else if even f then f else f + 1)"

text \<open>List indexing \<open>xs[i]\<close> with a non-negative index.\<close>

definition py_index :: "'a list \<Rightarrow> nat \<Rightarrow> py_exn + 'a" where
  "py_index xs i = (if i < length xs then Inr (xs ! i) else Inl IndexError)"

section \<open>The host's data: vectors, planes, edges, wires, rebars\<close>

type_synonym vec3 = "real \<times> real \<times> real"
type_synonym point2 = "real \<times> real"

text \<open>
  What a caller can pass as a view direction: a \<open>FreeCAD.Vector\<close>, a
  \<open>WorkingPlane.Plane\<close> (of the host's type \<open>'pl\<close>), or an object of another type
  (a float, \<open>None\<close>).
\<close>

datatype 'pl pyobj = Vector real real real | Plane 'pl | PyFloat real | PyNone

text \<open>\<open>DraftGeomUtils.geomType(edge)\<close> is "Line", "Circle" or something else.\<close>

datatype geom = Line | Circle | OtherGeom

record edge =
  geomType :: geom
  edge_Vertexes :: "vec3 list"
  edge_Length :: real

record wire =
  wire_Edges :: "edge list"
  wire_Vertexes :: "vec3 list"

text \<open>The value of a rebar's \<open>MarkNumber\<close>: an int, or (as the source tests) not an int.\<close>

datatype markval = MInt int | MStr string

text \<open>
  A rebar object.  \<open>Mark\<close> and \<open>MarkNumber\<close> are \<open>None\<close> when the object has no such
  attribute (\<open>hasattr\<close> is False); \<open>basewire\<close> is \<open>rebar.Base.Shape.Wires[0]\<close>.
\<close>

record rebar =
  Name :: string
  Mark :: "string option"
  MarkNumber :: "markval option"
  Rounding :: real
  Diameter :: real
  basewire :: wire

text \<open>
  The functions this module imports from FreeCAD and from the sibling modules
  ReinforcementDrawingfunc and SVGfunc are not part of the file; the model takes them as
  parameters, collected in one record.  \<open>Decimals\<close> is the unit precision read from the
  user parameters, \<open>root_attrib\<close> the attributes \<open>getSVGRootElement()\<close> puts on the root
  element, \<open>ActiveDocument\<close> the active document's objects of type "Rebar" and of type
  "RebarShape" (\<open>None\<close> when no document is open).  \<open>xpath_error\<close> is the exception that
  looking up a rebar's group by an ElementTree path ends in when the rebar's name closes
  the path's predicate early (see \<open>find_shape_group\<close> below).
\<close>

datatype attr =
    AStr string
  | AMm real
  | AViewBox real real
  | AScaleTranslate real int int
  | ATranslate real real
  | ARotate real int int

record 'pl host =
  isNull :: "vec3 \<Rightarrow> bool"
  getRebarsSpanAxis :: "rebar \<Rightarrow> vec3"
  getSVGPlaneFromAxis :: "vec3 \<Rightarrow> 'pl"
  getProjectionToSVGPlane :: "vec3 \<Rightarrow> 'pl \<Rightarrow> point2"
  getRebarColor :: "rebar \<Rightarrow> string \<Rightarrow> string"
  filletWire :: "wire \<Rightarrow> real \<Rightarrow> wire"
  sortEdges :: "edge list \<Rightarrow> edge list"
  Decimals :: int
  root_attrib :: "(string \<times> attr) list"
  ActiveDocument :: "(rebar list \<times> rebar list) option"
  xpath_error :: "string \<Rightarrow> py_exn"

section \<open>getVertexesMinMaxXY\<close>

definition minmax_step :: "'pl host \<Rightarrow> 'pl \<Rightarrow> real \<times> real \<times> real \<times> real \<Rightarrow> vec3
    \<Rightarrow> real \<times> real \<times> real \<times> real" where
  "minmax_step H view_plane acc vertex =
     (case acc of (min_x, min_y, max_x, max_y) \<Rightarrow>
        (let point = getProjectionToSVGPlane H vertex view_plane
         in (min (fst point) min_x, min (snd point) min_y,
             max (fst point) max_x, max (snd point) max_y)))"

definition getVertexesMinMaxXY :: "'pl host \<Rightarrow> vec3 list \<Rightarrow> 'pl
    \<Rightarrow> py_exn + (real \<times> real \<times> real \<times> real)" where
  "getVertexesMinMaxXY H vertex_list view_plane =
     (case vertex_list of
        [] \<Rightarrow> Inl IndexError
      | v0 # vs \<Rightarrow>
          (let point = getProjectionToSVGPlane H v0 view_plane
           in Inr (foldl (minmax_step H view_plane)
                     (fst point, snd point, fst point, snd point) vs)))"

section \<open>getRebarShapeSVG: scale and canvas\<close>

text \<open>
  Lines 251 to 262: both factors start as the \<open>scale\<close> parameter; a non-zero
  \<open>max_height\<close> replaces the vertical one, a non-zero \<open>max_width\<close> the horizontal one,
  and the result is the smaller of the two.
\<close>

definition scaling_factor :: "bool \<Rightarrow> real \<Rightarrow> real \<Rightarrow> real \<Rightarrow> real \<Rightarrow> real
    \<Rightarrow> real \<Rightarrow> real \<Rightarrow> py_exn + real" where
  "scaling_factor include_mark rebar_stroke_width dimension_font_size scale max_height max_width
       rebar_shape_height rebar_shape_width =
     bind_exn
       (if max_height \<noteq> 0
        then py_fdiv (max_height - dimension_font_size * (if include_mark then 4 else 2)
                        - 2 * rebar_stroke_width) rebar_shape_height
        else Inr scale)
       (\<lambda>v_scaling_factor.
     bind_exn
       (if max_width \<noteq> 0
        then py_fdiv (max_width - 2 * dimension_font_size - 2 * rebar_stroke_width)
               rebar_shape_width
        else Inr scale)
       (\<lambda>h_scaling_factor. Inr (min h_scaling_factor v_scaling_factor)))"

text \<open>
  Lines 263 to 301: the canvas size, the translation, and the stroke width and font
  size divided by the scale.
\<close>

definition canvas_height :: "bool \<Rightarrow> real \<Rightarrow> real \<Rightarrow> real \<Rightarrow> real \<Rightarrow> real" where
  "canvas_height include_mark rebar_stroke_width dimension_font_size scale rebar_shape_height =
     rebar_shape_height * scale + dimension_font_size * (if include_mark then 4 else 2)
       - 2 * rebar_stroke_width"

definition canvas_width :: "real \<Rightarrow> real \<Rightarrow> real \<Rightarrow> real \<Rightarrow> real" where
  "canvas_width rebar_stroke_width dimension_font_size scale rebar_shape_width =
     rebar_shape_width * scale + 2 * dimension_font_size - 2 * rebar_stroke_width"

record layout =
  final_scale :: real
  svg_height :: real
  svg_width :: real
  translate_x :: int
  translate_y :: int
  local_stroke_width :: real
  local_font_size :: real

definition shape_layout :: "bool \<Rightarrow> real \<Rightarrow> real \<Rightarrow> real \<Rightarrow> real \<Rightarrow> real
    \<Rightarrow> real \<times> real \<times> real \<times> real \<Rightarrow> py_exn + layout" where
  "shape_layout include_mark rebar_stroke_width dimension_font_size scale max_height max_width box =
     (case box of (rebar_shape_min_x, rebar_shape_min_y, rebar_shape_max_x, rebar_shape_max_y) \<Rightarrow>
        (let rebar_shape_height = rebar_shape_max_y - rebar_shape_min_y;
             rebar_shape_width = rebar_shape_max_x - rebar_shape_min_x
         in bind_exn
              (scaling_factor include_mark rebar_stroke_width dimension_font_size scale
                 max_height max_width rebar_shape_height rebar_shape_width)
              (\<lambda>s.
                 if s = 0 then Inl ZeroDivisionError
                 else Inr \<lparr>
                   final_scale = s,
                   svg_height = canvas_height include_mark rebar_stroke_width
                     dimension_font_size s rebar_shape_height,
                   svg_width = canvas_width rebar_stroke_width dimension_font_size s
                     rebar_shape_width,
                   translate_x = py_round
                     (- (rebar_shape_min_x - (dimension_font_size + rebar_stroke_width) / s)),
                   translate_y = py_round
                     (- (rebar_shape_min_y
                         - (if include_mark then 3 else 1) * dimension_font_size / s
                         - rebar_stroke_width / s)),
                   local_stroke_width = rebar_stroke_width / s,
                   local_font_size = dimension_font_size / s \<rparr>)))"

section \<open>Printing numbers\<close>

text \<open>\<open>str(n)\<close> of an int: its decimal digits, with a minus sign when negative.\<close>

definition digit_char :: "nat \<Rightarrow> char" where
  "digit_char d = ''0123456789'' ! (d mod 10)"

fun nat_digits :: "nat \<Rightarrow> string" where
  "nat_digits n = (if n < 10 then [digit_char n] else nat_digits (n div 10) @ [digit_char (n mod 10)])"

definition py_str_int :: "int \<Rightarrow> string" where
  "py_str_int i = (if i < 0 then CHR ''-'' # nat_digits (nat (- i)) else nat_digits (nat i))"

text \<open>\<open>s.rstrip(chars)\<close>: drop the trailing characters that belong to \<open>chars\<close>.\<close>

definition rstrip :: "string \<Rightarrow> string \<Rightarrow> string" where
  "rstrip chars s = rev (dropWhile (\<lambda>c. c \<in> set chars) (rev s))"

text \<open>
  \<open>str(x)\<close> of the float whose value is the decimal \<open>m / 10 ^ p\<close>, as CPython prints
  it (\<open>repr\<close> style): the significant digits \<open>D\<close> with their trailing zeros removed and the
  position \<open>decpt\<close> of the decimal point (the value is \<open>0.D * 10 ^ decpt\<close>); exponent
  notation when \<open>decpt \<le> -4\<close> or \<open>decpt > 16\<close>, that is below \<open>1e-4\<close> and from \<open>1e16\<close> on;
  otherwise positional notation with at least one digit after the point.
\<close>

definition exponent_str :: "int \<Rightarrow> string" where
  "exponent_str e =
     (let ds = nat_digits (nat \<bar>e\<bar>)
      in (if e < 0 then CHR ''-'' else CHR ''+'') # (if length ds < 2 then CHR ''0'' # ds else ds))"

definition float_repr_pos :: "nat \<Rightarrow> nat \<Rightarrow> string" where
  "float_repr_pos m p =
     (let ds = nat_digits m;
          D = rstrip ''0'' ds;
          n = length D;
          decpt = int (length ds) - int p
      in if decpt \<le> - 4 \<or> 16 < decpt
         then hd D # (if 1 < n then CHR ''.'' # tl D else []) @ CHR ''e'' # exponent_str (decpt - 1)
         else if decpt \<le> 0 then ''0.'' @ replicate (nat (- decpt)) CHR ''0'' @ D
         else if int n \<le> decpt then D @ replicate (nat decpt - n) CHR ''0'' @ ''.0''
         else take (nat decpt) D @ CHR ''.'' # drop (nat decpt) D)"

definition float_repr :: "int \<Rightarrow> nat \<Rightarrow> string" where
  "float_repr m p =
     (if m = 0 then ''0.0''
      else if m < 0 then CHR ''-'' # float_repr_pos (nat (- m)) p
      else float_repr_pos (nat m) p)"

text \<open>
  \<open>str(round(x, ndigits))\<close> for a float \<open>x\<close>: \<open>round\<close> gives the multiple of
  \<open>10 ^ (- ndigits)\<close> nearest to \<open>x\<close> (a tie going to the even multiple), which is then
  printed.
\<close>

definition str_round :: "real \<Rightarrow> int \<Rightarrow> string" where
  "str_round x ndigits =
     (if 0 \<le> ndigits
      then float_repr (py_round (x * 10 ^ nat ndigits)) (nat ndigits)
      else float_repr (py_round (x / 10 ^ nat (- ndigits)) * 10 ^ nat (- ndigits)) 0)"

text \<open>Lines 342 to 349: the dimension label of a straight edge of the given length.\<close>

definition edge_length_label :: "real \<Rightarrow> int \<Rightarrow> string" where
  "edge_length_label len precision =
     (let edge_length = str_round len precision
      in if CHR ''.'' \<in> set edge_length then rstrip ''.'' (rstrip ''0'' edge_length)
         else edge_length)"

section \<open>The SVG tree\<close>

text \<open>
  An \<open>ElementTree\<close> element is a tag, its attributes in insertion order, and its
  children.  The elements built by SVGfunc and by \<open>getRoundCornerSVG\<close> are kept as the
  call that builds them, with the arguments passed.  A formatted attribute value is kept
  as its format and arguments: \<open>AMm x\<close> is \<open>"{}mm".format(x)\<close>, \<open>AViewBox w h\<close> is
  \<open>"0 0 {} {}".format(w, h)\<close>, \<open>AScaleTranslate s x y\<close> is
  \<open>"scale({}) translate({} {})".format(s, x, y)\<close>, \<open>ATranslate x y\<close> is
  \<open>"translate({} {})".format(x, y)\<close>, \<open>ARotate r x y\<close> is \<open>"rotate({} {} {})".format(r, x, y)\<close>.
\<close>

datatype text_data = TStr string | TInt int

datatype 'pl svg =
    Element string "(string \<times> attr) list" "'pl svg list"
  | PointSVG point2 real string
  | LineSVG point2 point2 real string
  | RoundCornerSVG edge real 'pl real string
  | TextSVG text_data real real string real "string option" "(string \<times> attr) list"
  | RectangleSVG real real real real string

text \<open>\<open>element.set(key, value)\<close> and \<open>element.get(key)\<close> on the attribute dictionary.\<close>

fun set_attr :: "string \<Rightarrow> attr \<Rightarrow> (string \<times> attr) list \<Rightarrow> (string \<times> attr) list" where
  "set_attr k v [] = [(k, v)]"
| "set_attr k v ((k', v') # kvs) = (if k = k' then (k, v) # kvs else (k', v') # set_attr k v kvs)"

definition get_attr :: "'pl svg \<Rightarrow> string \<Rightarrow> attr option" where
  "get_attr el k = (case el of Element tag attrs children \<Rightarrow> map_of attrs k | _ \<Rightarrow> None)"

definition getSVGRootElement :: "'pl host \<Rightarrow> 'pl svg" where
  "getSVGRootElement H = Element ''svg'' (root_attrib H) []"

text \<open>The mark shown for a rebar (lines 305 to 310 and 499 to 504).\<close>

definition rebar_mark :: "rebar \<Rightarrow> text_data" where
  "rebar_mark rebar =
     (case Mark rebar of
        Some m \<Rightarrow> TStr m
      | None \<Rightarrow>
          (case MarkNumber rebar of
             Some (MInt n) \<Rightarrow> TInt n
           | Some (MStr s) \<Rightarrow> TStr s
           | None \<Rightarrow> TStr []))"

section \<open>getRebarShapeSVG: the edges\<close>

text \<open>
  One pass of the loop of lines 324 to 382 for one edge of the filleted wire, with the
  cursor \<open>k\<close> into the unfilleted wire's edges: the edge's element, the dimension label
  when the edge is straight, and the cursor afterwards.
\<close>

definition dimension_rotation :: "point2 \<Rightarrow> point2 \<Rightarrow> real" where
  "dimension_rotation p1 p2 =
     (if py_round (fst p2) \<noteq> py_round (fst p1)
      then arctan ((snd p2 - snd p1) / (fst p2 - fst p1)) * 180 / pi
      else - 90)"

definition render_edge :: "'pl host \<Rightarrow> 'pl \<Rightarrow> string \<Rightarrow> real \<Rightarrow> real \<Rightarrow> string \<Rightarrow> real \<Rightarrow> int
    \<Rightarrow> edge list \<Rightarrow> nat \<Rightarrow> edge \<Rightarrow> py_exn + ('pl svg \<times> 'pl svg list \<times> nat)" where
  "render_edge H view_plane rebar_color rebar_stroke_width dimension_font_size
       dimension_font_family corner_radius precision straight_edges k e =
     (case geomType e of
        Line \<Rightarrow>
          bind_exn (py_index (edge_Vertexes e) 0) (\<lambda>v0.
          bind_exn (py_index (edge_Vertexes e) 1) (\<lambda>v1.
            let p1 = getProjectionToSVGPlane H v0 view_plane;
                p2 = getProjectionToSVGPlane H v1 view_plane;
                edge_svg =
                  (if py_round (fst p1) = py_round (fst p2) \<and> py_round (snd p1) = py_round (snd p2)
                   then PointSVG p1 (2 * rebar_stroke_width) rebar_color
                   else LineSVG p1 p2 rebar_stroke_width rebar_color);
                mid_point = ((fst p1 + fst p2) / 2, (snd p1 + snd p2) / 2)
            in bind_exn (py_index straight_edges k) (\<lambda>se.
                 Inr (edge_svg,
                      [TextSVG (TStr (edge_length_label (edge_Length se) precision))
                         (fst mid_point) (snd mid_point - rebar_stroke_width * 2)
                         dimension_font_family dimension_font_size (Some ''middle'')
                         [(''transform'',
                           ARotate (dimension_rotation p1 p2)
                             (py_round (fst mid_point)) (py_round (snd mid_point)))]],
                      k + 1))))
      | Circle \<Rightarrow>
          bind_exn (py_index (edge_Vertexes e) 0) (\<lambda>v0.
          bind_exn (py_index (edge_Vertexes e) 1) (\<lambda>v1.
            let p1 = getProjectionToSVGPlane H v0 view_plane;
                p2 = getProjectionToSVGPlane H v1 view_plane
            in Inr (if py_round (fst p1) = py_round (fst p2) \<or> py_round (snd p1) = py_round (snd p2)
                    then LineSVG p1 p2 rebar_stroke_width rebar_color
                    else RoundCornerSVG e corner_radius view_plane rebar_stroke_width rebar_color,
                    [], k)))
      | OtherGeom \<Rightarrow> Inr (Element ''g'' [] [], [], k))"

text \<open>
  The loop: the edge elements and the dimension labels are appended in the order of
  the edges; a raise in any pass ends the function.
\<close>

fun render_edges :: "'pl host \<Rightarrow> 'pl \<Rightarrow> string \<Rightarrow> real \<Rightarrow> real \<Rightarrow> string \<Rightarrow> real \<Rightarrow> int
    \<Rightarrow> edge list \<Rightarrow> nat \<Rightarrow> edge list \<Rightarrow> py_exn + ('pl svg list \<times> 'pl svg list)" where
  "render_edges H view_plane rebar_color rebar_stroke_width dimension_font_size
       dimension_font_family corner_radius precision straight_edges k [] = Inr ([], [])"
| "render_edges H view_plane rebar_color rebar_stroke_width dimension_font_size
       dimension_font_family corner_radius precision straight_edges k (e # es) =
     (case render_edge H view_plane rebar_color rebar_stroke_width dimension_font_size
             dimension_font_family corner_radius precision straight_edges k e of
        Inl err \<Rightarrow> Inl err
      | Inr (edge_svg, dims, k') \<Rightarrow>
          (case render_edges H view_plane rebar_color rebar_stroke_width dimension_font_size
                  dimension_font_family corner_radius precision straight_edges k' es of
             Inl err \<Rightarrow> Inl err
           | Inr (edge_svgs, dim_svgs) \<Rightarrow> Inr (edge_svg # edge_svgs, dims @ dim_svgs)))"

section \<open>getRebarShapeSVG\<close>

text \<open>
  Lines 205 to 216: the view plane for the \<open>view_direction\<close> argument; \<open>None\<close> when the
  argument is neither a vector nor a plane.
\<close>

definition resolve_view_plane :: "'pl host \<Rightarrow> rebar \<Rightarrow> 'pl pyobj \<Rightarrow> 'pl option" where
  "resolve_view_plane H rebar view_direction =
     (case view_direction of
        Vector x y z \<Rightarrow>
          Some (getSVGPlaneFromAxis H
                  (if isNull H (x, y, z) then getRebarsSpanAxis H rebar else (x, y, z)))
      | Plane p \<Rightarrow> Some p
      | PyFloat x \<Rightarrow> None
      | PyNone \<Rightarrow> None)"

definition invalid_view_direction_message :: string where
  "invalid_view_direction_message =
     ''Invalid view_direction type. Supported view_direction types: ''
     @ ''FreeCAD.Vector, WorkingPlane.Plane'' @ [CHR 0x0A]"

text \<open>Lines 233 to 238: the wire that is drawn, with round corners when the rebar has a rounding.\<close>

definition fillet_basewire :: "'pl host \<Rightarrow> rebar \<Rightarrow> wire" where
  "fillet_basewire H rebar =
     (let fillet_radius = Rounding rebar * Diameter rebar
      in if fillet_radius \<noteq> 0 then filletWire H (basewire rebar) fillet_radius
         else basewire rebar)"

text \<open>Lines 218 to 384: the drawing on a resolved view plane.\<close>

definition shape_svg_on_plane :: "'pl host \<Rightarrow> rebar \<Rightarrow> 'pl \<Rightarrow> bool \<Rightarrow> real \<Rightarrow> string \<Rightarrow> string
    \<Rightarrow> real \<Rightarrow> real \<Rightarrow> real \<Rightarrow> real \<Rightarrow> py_exn + 'pl svg" where
  "shape_svg_on_plane H rebar view_plane include_mark rebar_stroke_width rebar_color_style
       dimension_font_family dimension_font_size scale max_height max_width =
     (let precision = Decimals H;
          rebar_color = getRebarColor H rebar rebar_color_style
      in bind_exn (getVertexesMinMaxXY H (wire_Vertexes (fillet_basewire H rebar)) view_plane)
           (\<lambda>box.
         bind_exn (shape_layout include_mark rebar_stroke_width dimension_font_size scale
                     max_height max_width box) (\<lambda>L.
         bind_exn (render_edges H view_plane rebar_color (local_stroke_width L)
                     (local_font_size L) dimension_font_family
                     (Rounding rebar * Diameter rebar) precision
                     (sortEdges H (wire_Edges (basewire rebar))) 0
                     (sortEdges H (wire_Edges (fillet_basewire H rebar)))) (\<lambda>drawn.
           Inr (Element ''svg''
                  (set_attr ''viewBox''
                     (AViewBox (of_int (py_round (svg_width L))) (of_int (py_round (svg_height L))))
                  (set_attr ''height'' (AMm (of_int (py_round (svg_height L))))
                  (set_attr ''width'' (AMm (of_int (py_round (svg_width L))))
                     (root_attrib H))))
                  [Element ''g''
                     [(''id'', AStr (Name rebar)),
                      (''transform'',
                       AScaleTranslate (final_scale L) (translate_x L) (translate_y L))]
                     ([Element ''g'' [] (fst drawn), Element ''g'' [] (snd drawn)]
                      @ (if include_mark
                         then [TextSVG (rebar_mark rebar) (fst box)
                                 (fst (snd box) - 1.5 * local_font_size L)
                                 dimension_font_family (1.5 * local_font_size L) None []]
                         else []))])))))"

text \<open>
  The function returns what it printed on the console and its result: an element, or
  the exception it raised.
\<close>

definition getRebarShapeSVG :: "'pl host \<Rightarrow> rebar \<Rightarrow> 'pl pyobj \<Rightarrow> bool \<Rightarrow> real \<Rightarrow> string \<Rightarrow> string
    \<Rightarrow> real \<Rightarrow> real \<Rightarrow> real \<Rightarrow> real \<Rightarrow> string list \<times> (py_exn + 'pl svg)" where
  "getRebarShapeSVG H rebar view_direction include_mark rebar_stroke_width rebar_color_style
       dimension_font_family dimension_font_size scale max_height max_width =
     (case resolve_view_plane H rebar view_direction of
        None \<Rightarrow> ([invalid_view_direction_message], Inr (Element ''g'' [] []))
      | Some view_plane \<Rightarrow>
          ([], shape_svg_on_plane H rebar view_plane include_mark rebar_stroke_width
                 rebar_color_style dimension_font_family dimension_font_size scale
                 max_height max_width))"

section \<open>getBaseRebarsList\<close>

definition py_str_markval :: "markval \<Rightarrow> string" where
  "py_str_markval v = (case v of MInt n \<Rightarrow> py_str_int n | MStr s \<Rightarrow> s)"

text \<open>Lines 81 to 84: one ArchRebar per non-empty mark not seen before.\<close>

fun collect_arch_rebars :: "rebar list \<Rightarrow> rebar list \<Rightarrow> string list
    \<Rightarrow> py_exn + (rebar list \<times> string list)" where
  "collect_arch_rebars [] rebars mark_list = Inr (rebars, mark_list)"
| "collect_arch_rebars (r # rs) rebars mark_list =
     (case Mark r of
        None \<Rightarrow> Inl AttributeError
      | Some m \<Rightarrow>
          if m \<noteq> [] \<and> m \<notin> set mark_list
          then collect_arch_rebars rs (rebars @ [r]) (mark_list @ [m])
          else collect_arch_rebars rs rebars mark_list)"

text \<open>Lines 94 to 97: the same for the base rebars, by \<open>str(rebar.MarkNumber)\<close>.\<close>

fun collect_base_rebars :: "rebar list \<Rightarrow> rebar list \<Rightarrow> string list
    \<Rightarrow> py_exn + (rebar list \<times> string list)" where
  "collect_base_rebars [] rebars mark_list = Inr (rebars, mark_list)"
| "collect_base_rebars (r # rs) rebars mark_list =
     (case MarkNumber r of
        None \<Rightarrow> Inl AttributeError
      | Some v \<Rightarrow>
          if py_str_markval v \<noteq> [] \<and> py_str_markval v \<notin> set mark_list
          then collect_base_rebars rs (rebars @ [r]) (mark_list @ [py_str_markval v])
          else collect_base_rebars rs rebars mark_list)"

text \<open>
  Lines 91 and 92: when the first base rebar's mark number is an int, the base rebars
  are sorted by mark number (\<open>sorted\<close> is stable; comparing an int with a str raises
  TypeError).
\<close>

definition is_MInt :: "markval option \<Rightarrow> bool" where
  "is_MInt v = (case v of Some (MInt n) \<Rightarrow> True | _ \<Rightarrow> False)"

definition mark_int :: "rebar \<Rightarrow> int" where
  "mark_int r = (case MarkNumber r of Some (MInt n) \<Rightarrow> n | _ \<Rightarrow> 0)"

definition sort_base_rebars :: "rebar list \<Rightarrow> py_exn + rebar list" where
  "sort_base_rebars base_rebars =
     (case base_rebars of
        [] \<Rightarrow> Inr []
      | r0 # rs \<Rightarrow>
          (case MarkNumber r0 of
             None \<Rightarrow> Inl AttributeError
           | Some (MStr s) \<Rightarrow> Inr base_rebars
           | Some (MInt n) \<Rightarrow>
               if list_ex (\<lambda>r. MarkNumber r = None) base_rebars then Inl AttributeError
               else if list_all (\<lambda>r. is_MInt (MarkNumber r)) base_rebars
               then Inr (sort_key mark_int base_rebars)
               else Inl TypeError))"

definition getBaseRebarsList :: "'pl host \<Rightarrow> bool \<Rightarrow> py_exn + rebar list" where
  "getBaseRebarsList H one_rebar_per_mark =
     (case ActiveDocument H of
        None \<Rightarrow> Inr []
      | Some (arch_rebars, base_rebars0) \<Rightarrow>
          bind_exn (if one_rebar_per_mark then collect_arch_rebars arch_rebars [] []
                    else Inr (arch_rebars, [])) (\<lambda>(rebars, mark_list).
          bind_exn (sort_base_rebars base_rebars0) (\<lambda>base_rebars.
            if one_rebar_per_mark
            then bind_exn (collect_base_rebars base_rebars rebars mark_list)
                   (\<lambda>(rebars', mark_list'). Inr rebars')
            else Inr (rebars @ base_rebars))))"

section \<open>getRebarShapeCutList\<close>

text \<open>
  The \<open>view_directions\<close> argument: one object, or a list of objects.
\<close>

datatype 'pl view_dirs = VDObj "'pl pyobj" | VDList "'pl pyobj list"

text \<open>
  \<open>n * FreeCAD.Vector(x, y, z)\<close> is the vector scaled by \<open>n\<close> (FreeCAD's number
  protocol for Vector), and iterating a \<open>FreeCAD.Vector\<close>, as \<open>list.extend\<close> does with
  its argument, yields its three coordinates as floats (its sequence protocol); the
  other objects are not iterable.
\<close>

definition int_times_vector :: "int \<Rightarrow> vec3 \<Rightarrow> 'pl pyobj" where
  "int_times_vector n v =
     (case v of (x, y, z) \<Rightarrow> Vector (of_int n * x) (of_int n * y) (of_int n * z))"

definition py_iterate :: "'pl pyobj \<Rightarrow> py_exn + 'pl pyobj list" where
  "py_iterate obj =
     (case obj of
        Vector x y z \<Rightarrow> Inr [PyFloat x, PyFloat y, PyFloat z]
      | Plane p \<Rightarrow> Inl TypeError
      | PyFloat x \<Rightarrow> Inl TypeError
      | PyNone \<Rightarrow> Inl TypeError)"

definition list_extend :: "'pl pyobj list \<Rightarrow> 'pl pyobj \<Rightarrow> py_exn + 'pl pyobj list" where
  "list_extend xs obj = bind_exn (py_iterate obj) (\<lambda>items. Inr (xs @ items))"

text \<open>
  Lines 448 to 455: a single vector is repeated for every rebar; a list shorter than
  the rebar list is extended with \<open>(len(base_rebars_list) - len(view_directions)) *
  FreeCAD.Vector(0, 0, 0)\<close>; anything else is left as it is.
\<close>

definition pad_view_directions :: "'pl view_dirs \<Rightarrow> nat \<Rightarrow> py_exn + 'pl view_dirs" where
  "pad_view_directions view_directions n_rebars =
     (case view_directions of
        VDObj (Vector x y z) \<Rightarrow> Inr (VDList (replicate n_rebars (Vector x y z)))
      | VDObj (Plane p) \<Rightarrow> Inr (VDObj (Plane p))
      | VDObj (PyFloat x) \<Rightarrow> Inr (VDObj (PyFloat x))
      | VDObj PyNone \<Rightarrow> Inr (VDObj PyNone)
      | VDList vds \<Rightarrow>
          if length vds < n_rebars
          then bind_exn
                 (list_extend vds
                    (int_times_vector (int n_rebars - int (length vds)) (0, 0, 0)))
                 (\<lambda>vds'. Inr (VDList vds'))
          else Inr (VDList vds))"

text \<open>\<open>view_directions[i]\<close>: an object that is not a list is not subscriptable.\<close>

definition view_direction_at :: "'pl view_dirs \<Rightarrow> nat \<Rightarrow> py_exn + 'pl pyobj" where
  "view_direction_at view_directions i =
     (case view_directions of
        VDList vds \<Rightarrow> py_index vds i
      | VDObj obj \<Rightarrow> Inl TypeError)"

text \<open>
  \<open>float(rebar_svg.get(key).rstrip("mm"))\<close>: \<open>get\<close> gives \<open>None\<close> for a missing
  attribute, and \<open>None.rstrip\<close> raises AttributeError.
\<close>

definition mm_attr :: "'pl svg \<Rightarrow> string \<Rightarrow> py_exn + real" where
  "mm_attr el k =
     (case get_attr el k of
        None \<Rightarrow> Inl AttributeError
      | Some (AMm x) \<Rightarrow> Inr x
      | Some other \<Rightarrow> Inl ValueError)"

text \<open>
  \<open>rebar_svg.find("./g[@id='name']")\<close> for a name without a single quote: the first
  child that is a \<open>g\<close> element with that id, or \<open>None\<close>.
\<close>

fun is_g_with_id :: "string \<Rightarrow> 'pl svg \<Rightarrow> bool" where
  "is_g_with_id n (Element tag attrs children) = (tag = ''g'' \<and> map_of attrs ''id'' = Some (AStr n))"
| "is_g_with_id n other = False"

definition find_g :: "'pl svg \<Rightarrow> string \<Rightarrow> 'pl svg option" where
  "find_g el n =
     (case el of
        Element tag attrs children \<Rightarrow> List.find (is_g_with_id n) children
      | _ \<Rightarrow> None)"

text \<open>
  Lines 485 to 487, \<open>rebar_shape_svg.append(rebar_svg.find("./g[@id='{}']".format(rebar.Name)))\<close>.
  The name is pasted into the path between single quotes.
  \<^item> A name without a single quote: the child is looked up as above; appending \<open>None\<close>
    (no child found) raises TypeError.
  \<^item> A name with a single quote ends the quoted value at that quote.  When no \<open>]\<close> comes
    after that quote in the name, more tokens follow the value inside the predicate, the
    predicate is invalid and \<open>find\<close> raises SyntaxError.
  \<^item> When a \<open>]\<close> comes after that quote, the predicate may close there, with a value
    that is not the name, and what follows is read as more path.  Then the path parser
    raises (SyntaxError, or KeyError on a token that starts no step), or the path is
    valid and finds nothing (the only child's id is the whole name), so that \<open>append\<close>
    raises TypeError.  No element is appended in any case; which exception it is depends
    on the rest of the name and is the host's \<open>xpath_error\<close>.
\<close>

definition quote_char :: char where
  "quote_char = CHR 0x27"

definition find_shape_group :: "'pl host \<Rightarrow> 'pl svg \<Rightarrow> string \<Rightarrow> py_exn + 'pl svg" where
  "find_shape_group H rebar_svg n =
     (if quote_char \<notin> set n
      then (case find_g rebar_svg n of None \<Rightarrow> Inl TypeError | Some g \<Rightarrow> Inr g)
      else if CHR '']'' \<in> set (dropWhile (\<lambda>c. c \<noteq> quote_char) n)
      then Inl (xpath_error H n)
      else Inl SyntaxError)"

text \<open>
  Lines 463 to 514 for the rebar at index \<open>i\<close>: the row element, with what the shape's
  rendering printed.
\<close>

definition cut_list_row :: "'pl host \<Rightarrow> bool \<Rightarrow> real \<Rightarrow> string \<Rightarrow> string \<Rightarrow> real \<Rightarrow> real \<Rightarrow> real
    \<Rightarrow> real \<Rightarrow> nat \<Rightarrow> rebar \<Rightarrow> 'pl pyobj \<Rightarrow> string list \<times> (py_exn + 'pl svg)" where
  "cut_list_row H include_mark rebars_stroke_width rebars_color_style dimension_font_family
       dimension_font_size row_height width rebar_shape_max_height i rebar view_direction =
     (case getRebarShapeSVG H rebar view_direction False rebars_stroke_width rebars_color_style
             dimension_font_family dimension_font_size 1 rebar_shape_max_height width of
        (printed, res) \<Rightarrow>
          (printed,
           bind_exn res (\<lambda>rebar_svg.
           bind_exn (mm_attr rebar_svg ''width'') (\<lambda>rebar_shape_svg_width.
           bind_exn (mm_attr rebar_svg ''height'') (\<lambda>rebar_shape_svg_height.
           bind_exn (find_shape_group H rebar_svg (Name rebar)) (\<lambda>shape_g.
             Inr (Element ''g'' [(''transform'', ATranslate 0 (of_nat i * row_height))]
                    ([RectangleSVG 0 0 width row_height (''row_'' @ py_str_int (int i)),
                      Element ''g''
                        [(''transform'',
                          ATranslate ((width - rebar_shape_svg_width) / 2)
                            ((rebar_shape_max_height - rebar_shape_svg_height) / 2
                             + (if include_mark then 2 * dimension_font_size else 0)))]
                        [shape_g]]
                     @ (if include_mark
                        then [TextSVG (rebar_mark rebar) 2 (2 * dimension_font_size)
                                dimension_font_family (1.5 * dimension_font_size) None []]
                        else [])))))))))"

text \<open>The loop over \<open>enumerate(base_rebars_list)\<close>, from index \<open>i\<close> on.\<close>

fun cut_list_rows :: "'pl host \<Rightarrow> bool \<Rightarrow> real \<Rightarrow> string \<Rightarrow> string \<Rightarrow> real \<Rightarrow> real \<Rightarrow> real
    \<Rightarrow> real \<Rightarrow> 'pl view_dirs \<Rightarrow> nat \<Rightarrow> rebar list \<Rightarrow> string list \<times> (py_exn + 'pl svg list)" where
  "cut_list_rows H include_mark rebars_stroke_width rebars_color_style dimension_font_family
       dimension_font_size row_height width rebar_shape_max_height view_directions i [] =
     ([], Inr [])"
| "cut_list_rows H include_mark rebars_stroke_width rebars_color_style dimension_font_family
       dimension_font_size row_height width rebar_shape_max_height view_directions i
       (rebar # rest) =
     (case view_direction_at view_directions i of
        Inl err \<Rightarrow> ([], Inl err)
      | Inr view_direction \<Rightarrow>
          (case cut_list_row H include_mark rebars_stroke_width rebars_color_style
                  dimension_font_family dimension_font_size row_height width
                  rebar_shape_max_height i rebar view_direction of
             (printed, Inl err) \<Rightarrow> (printed, Inl err)
           | (printed, Inr row_svg) \<Rightarrow>
               (case cut_list_rows H include_mark rebars_stroke_width rebars_color_style
                       dimension_font_family dimension_font_size row_height width
                       rebar_shape_max_height view_directions (i + 1) rest of
                  (printed', Inl err) \<Rightarrow> (printed @ printed', Inl err)
                | (printed', Inr rows) \<Rightarrow> (printed @ printed', Inr (row_svg # rows)))))"

definition getRebarShapeCutList :: "'pl host \<Rightarrow> rebar list option \<Rightarrow> 'pl view_dirs \<Rightarrow> bool \<Rightarrow> real
    \<Rightarrow> string \<Rightarrow> string \<Rightarrow> real \<Rightarrow> real \<Rightarrow> real \<Rightarrow> string list \<times> (py_exn + 'pl svg)" where
  "getRebarShapeCutList H base_rebars_list_arg view_directions include_mark rebars_stroke_width
       rebars_color_style dimension_font_family dimension_font_size row_height width =
     (case (case base_rebars_list_arg of
              None \<Rightarrow> getBaseRebarsList H True
            | Some rebars \<Rightarrow> Inr rebars) of
        Inl err \<Rightarrow> ([], Inl err)
      | Inr base_rebars_list \<Rightarrow>
          if base_rebars_list = []
          then ([], Inr (Element ''svg''
                           [(''height'', AMm row_height), (''width'', AMm width),
                            (''viewBox'', AViewBox width row_height)] []))
          else
            (case pad_view_directions view_directions (length base_rebars_list) of
               Inl err \<Rightarrow> ([], Inl err)
             | Inr view_directions' \<Rightarrow>
                 (case cut_list_rows H include_mark rebars_stroke_width rebars_color_style
                         dimension_font_family dimension_font_size row_height width
                         (if include_mark then row_height - 2 * dimension_font_size
                          else row_height)
                         view_directions' 0 base_rebars_list of
                    (printed, Inl err) \<Rightarrow> (printed, Inl err)
                  | (printed, Inr rows) \<Rightarrow>
                      (printed,
                       Inr (Element ''svg''
                              (set_attr ''viewBox''
                                 (AViewBox width
                                    (row_height * of_nat (length base_rebars_list)))
                              (set_attr ''height''
                                 (AMm (row_height * of_nat (length base_rebars_list)))
                              (set_attr ''width'' (AMm width) (root_attrib H))))
                              rows)))))"

section \<open>A sample host and sample rebars\<close>

text \<open>
  A host for evaluating the functions on concrete input: the view plane is the xy
  plane whatever the axis (a point projects to its x and y), a wire is filleted to
  itself and its edges are already in order.  The names of the sample rebars hold no
  single quote, so \<open>xpath_error\<close> is never consulted for them.
\<close>

definition sample_host :: "unit host" where
  "sample_host = \<lparr>
     isNull = (\<lambda>v. v = (0, 0, 0)),
     getRebarsSpanAxis = (\<lambda>r. (0, 0, 1)),
     getSVGPlaneFromAxis = (\<lambda>v. ()),
     getProjectionToSVGPlane = (\<lambda>v pl. (fst v, fst (snd v))),
     getRebarColor = (\<lambda>r style. ''black''),
     filletWire = (\<lambda>w r. w),
     sortEdges = (\<lambda>es. es),
     Decimals = 2,
     root_attrib = [(''version'', AStr ''1.1'')],
     ActiveDocument = None,
     xpath_error = (\<lambda>n. SyntaxError) \<rparr>"

text \<open>An L-shaped bar: 10 along x, then 10 along y.\<close>

definition L_bar :: rebar where
  "L_bar = \<lparr>
     Name = ''Rebar'', Mark = Some ''A'', MarkNumber = None, Rounding = 0, Diameter = 8,
     basewire = \<lparr>
       wire_Edges =
         [\<lparr>geomType = Line, edge_Vertexes = [(0, 0, 0), (10, 0, 0)], edge_Length = 10\<rparr>,
          \<lparr>geomType = Line, edge_Vertexes = [(10, 0, 0), (10, 10, 0)], edge_Length = 10\<rparr>],
       wire_Vertexes = [(0, 0, 0), (10, 0, 0), (10, 10, 0)] \<rparr> \<rparr>"

text \<open>A straight bar of length 10 along x.\<close>

definition straight_bar :: rebar where
  "straight_bar = \<lparr>
     Name = ''Rebar001'', Mark = Some ''B'', MarkNumber = None, Rounding = 0, Diameter = 8,
     basewire = \<lparr>
       wire_Edges =
         [\<lparr>geomType = Line, edge_Vertexes = [(0, 0, 0), (10, 0, 0)], edge_Length = 10\<rparr>],
       wire_Vertexes = [(0, 0, 0), (10, 0, 0)] \<rparr> \<rparr>"

text \<open>
  A bar bent out of the view plane: 10 along x, 5 along z (towards the viewer), 10 along
  y.  Its middle edge projects to a single point.
\<close>

definition bent_up_bar :: rebar where
  "bent_up_bar = \<lparr>
     Name = ''Rebar002'', Mark = Some ''C'', MarkNumber = None, Rounding = 0, Diameter = 8,
     basewire = \<lparr>
       wire_Edges =
         [\<lparr>geomType = Line, edge_Vertexes = [(0, 0, 0), (10, 0, 0)], edge_Length = 10\<rparr>,
          \<lparr>geomType = Line, edge_Vertexes = [(10, 0, 0), (10, 0, 5)], edge_Length = 5\<rparr>,
          \<lparr>geomType = Line, edge_Vertexes = [(10, 0, 5), (10, 10, 5)], edge_Length = 10\<rparr>],
       wire_Vertexes = [(0, 0, 0), (10, 0, 0), (10, 0, 5), (10, 10, 5)] \<rparr> \<rparr>"

section \<open>Basic facts\<close>

declare nat_digits.simps [simp del]

lemma bind_exn_simps:
  "bind_exn (Inl e) f = Inl e" "bind_exn (Inr x) f = f x"
  by (simp_all add: bind_exn_def)

lemma py_round_mono: "x \<le> y \<Longrightarrow> py_round x \<le> py_round y"
proof -
  assume xy: "x \<le> y"
  have fl: "\<lfloor>x\<rfloor> \<le> \<lfloor>y\<rfloor>" using xy by (rule floor_mono)
  show ?thesis
  proof (cases "\<lfloor>x\<rfloor> = \<lfloor>y\<rfloor>")
    case True
    then show ?thesis using xy by (auto simp: py_round_def Let_def)
  next
    case False
    then have "\<lfloor>x\<rfloor> + 1 \<le> \<lfloor>y\<rfloor>" using fl by linarith
    moreover have "py_round x \<le> \<lfloor>x\<rfloor> + 1" by (auto simp: py_round_def Let_def)
    moreover have "\<lfloor>y\<rfloor> \<le> py_round y" by (auto simp: py_round_def Let_def)
    ultimately show ?thesis by linarith
  qed
qed

lemma scaling_factor_cases:
  "scaling_factor im sw fs scale mh mw h w =
     (if mh \<noteq> 0 \<and> h = 0 \<or> mw \<noteq> 0 \<and> w = 0 then Inl ZeroDivisionError
      else Inr (min (if mw \<noteq> 0 then (mw - 2 * fs - 2 * sw) / w else scale)
                    (if mh \<noteq> 0 then (mh - fs * (if im then 4 else 2) - 2 * sw) / h else scale)))"
  by (simp add: scaling_factor_def py_fdiv_def bind_exn_simps)

lemma minmax_foldl_le:
  "fst acc \<le> fst (snd (snd acc)) \<Longrightarrow> fst (snd acc) \<le> snd (snd (snd acc))
   \<Longrightarrow> fst (foldl (minmax_step H vp) acc vs) \<le> fst (snd (snd (foldl (minmax_step H vp) acc vs)))
     \<and> fst (snd (foldl (minmax_step H vp) acc vs)) \<le> snd (snd (snd (foldl (minmax_step H vp) acc vs)))"
proof (induction vs arbitrary: acc)
  case Nil
  then show ?case by simp
next
  case (Cons v vs)
  have "fst (minmax_step H vp acc v) \<le> fst (snd (snd (minmax_step H vp acc v)))"
       "fst (snd (minmax_step H vp acc v)) \<le> snd (snd (snd (minmax_step H vp acc v)))"
    using Cons.prems by (auto simp: minmax_step_def Let_def split: prod.splits)
  then show ?case using Cons.IH[of "minmax_step H vp acc v"] by simp
qed

lemma box_min_le_max:
  assumes "getVertexesMinMaxXY H vs vp = Inr (min_x, min_y, max_x, max_y)"
  shows "min_x \<le> max_x \<and> min_y \<le> max_y"
proof (cases vs)
  case Nil
  then show ?thesis using assms by (simp add: getVertexesMinMaxXY_def)
next
  case (Cons v0 rest)
  define p where "p = getProjectionToSVGPlane H v0 vp"
  have eq: "foldl (minmax_step H vp) (fst p, snd p, fst p, snd p) rest = (min_x, min_y, max_x, max_y)"
    using assms Cons by (simp add: getVertexesMinMaxXY_def Let_def p_def)
  show ?thesis
    using minmax_foldl_le[of "(fst p, snd p, fst p, snd p)" H vp rest] unfolding eq by simp
qed

section \<open>The empty bar list\<close>

text \<open>
  Claim C9.  For the empty bar list, \<open>getRebarShapeCutList\<close> returns, without raising and
  without printing an error, an \<open>svg\<close> element of height \<open>row_height\<close> and width \<open>width\<close>
  whose viewBox is \<open>0 0 width row_height\<close> and which has no children.
\<close>

theorem empty_bar_list_minimal_document:
  "getRebarShapeCutList H (Some []) view_directions include_mark rebars_stroke_width
       rebars_color_style dimension_font_family dimension_font_size row_height width =
     ([], Inr (Element ''svg''
                 [(''height'', AMm row_height), (''width'', AMm width),
                  (''viewBox'', AViewBox width row_height)] []))"
  by (simp add: getRebarShapeCutList_def)

section \<open>An invalid view direction\<close>

text \<open>
  Claim C6.  When the \<open>view_direction\<close> argument of \<open>getRebarShapeSVG\<close> is neither a vector
  nor a plane, the function prints the error message and returns an empty \<open>g\<close> element;
  it does not raise, and nothing else is drawn.
\<close>

theorem invalid_view_direction_empty_fragment:
  assumes "\<forall>x y z. view_direction \<noteq> Vector x y z" and "\<forall>p. view_direction \<noteq> Plane p"
  shows "getRebarShapeSVG H rebar view_direction include_mark rebar_stroke_width
           rebar_color_style dimension_font_family dimension_font_size scale max_height max_width =
         ([invalid_view_direction_message], Inr (Element ''g'' [] []))"
  using assms by (cases view_direction) (simp_all add: getRebarShapeSVG_def resolve_view_plane_def)

theorem invalid_view_direction_empty_fragment_witness:
  "(\<forall>x y z. (PyNone :: unit pyobj) \<noteq> Vector x y z) \<and> (\<forall>p. (PyNone :: unit pyobj) \<noteq> Plane p) \<and>
   getRebarShapeSVG sample_host L_bar PyNone True (35 / 100) ''shape color'' ''DejaVu Sans'' 2 1 0 0 =
     ([invalid_view_direction_message], Inr (Element ''g'' [] []))"
  using invalid_view_direction_empty_fragment
          [of PyNone sample_host L_bar True "35 / 100" "''shape color''" "''DejaVu Sans''" 2 1 0 0]
  by simp

section \<open>Division by a zero extent\<close>

text \<open>
  Claim C10.  The extents of the projected bounding box are never negative.  The scale
  derivation raises ZeroDivisionError exactly when a constrained axis (non-zero
  \<open>max_height\<close>, respectively \<open>max_width\<close>) has extent zero, and it returns a scale exactly
  when every constrained axis has a non-zero, hence positive, extent.  In the first case
  \<open>getRebarShapeSVG\<close>, called with a valid view direction, raises ZeroDivisionError
  instead of returning an element.
\<close>

theorem zero_extent_division_by_zero:
  assumes vp: "resolve_view_plane H rebar view_direction = Some view_plane"
      and box: "getVertexesMinMaxXY H (wire_Vertexes (fillet_basewire H rebar)) view_plane =
                  Inr (min_x, min_y, max_x, max_y)"
  shows "0 \<le> max_y - min_y \<and> 0 \<le> max_x - min_x \<and>
     ((scaling_factor include_mark rebar_stroke_width dimension_font_size scale max_height max_width
         (max_y - min_y) (max_x - min_x) = Inl ZeroDivisionError)
        = (max_height \<noteq> 0 \<and> max_y - min_y = 0 \<or> max_width \<noteq> 0 \<and> max_x - min_x = 0)) \<and>
     ((\<exists>s. scaling_factor include_mark rebar_stroke_width dimension_font_size scale max_height
              max_width (max_y - min_y) (max_x - min_x) = Inr s)
        = (\<not> (max_height \<noteq> 0 \<and> max_y - min_y = 0 \<or> max_width \<noteq> 0 \<and> max_x - min_x = 0))) \<and>
     ((max_height \<noteq> 0 \<and> max_y - min_y = 0 \<or> max_width \<noteq> 0 \<and> max_x - min_x = 0) \<longrightarrow>
        getRebarShapeSVG H rebar view_direction include_mark rebar_stroke_width rebar_color_style
          dimension_font_family dimension_font_size scale max_height max_width =
        ([], Inl ZeroDivisionError))"
proof -
  have le: "min_x \<le> max_x \<and> min_y \<le> max_y"
    using box by (rule box_min_le_max)
  have run: "max_height \<noteq> 0 \<and> max_y - min_y = 0 \<or> max_width \<noteq> 0 \<and> max_x - min_x = 0 \<Longrightarrow>
     getRebarShapeSVG H rebar view_direction include_mark rebar_stroke_width rebar_color_style
       dimension_font_family dimension_font_size scale max_height max_width =
     ([], Inl ZeroDivisionError)"
    by (simp add: getRebarShapeSVG_def vp shape_svg_on_plane_def box bind_exn_simps
          shape_layout_def scaling_factor_cases Let_def)
  show ?thesis
    using le run by (simp add: scaling_factor_cases)
qed

theorem zero_extent_division_by_zero_witness:
  "resolve_view_plane sample_host straight_bar (Vector 0 0 0) = Some () \<and>
   getVertexesMinMaxXY sample_host (wire_Vertexes (fillet_basewire sample_host straight_bar)) () =
     Inr (0, 0, 10, 0) \<and>
   getRebarShapeSVG sample_host straight_bar (Vector 0 0 0) True (35 / 100) ''shape color''
     ''DejaVu Sans'' 2 1 40 60 = ([], Inl ZeroDivisionError)"
proof -
  have vp: "resolve_view_plane sample_host straight_bar (Vector 0 0 0) = Some ()"
    by (simp add: resolve_view_plane_def)
  have box: "getVertexesMinMaxXY sample_host
               (wire_Vertexes (fillet_basewire sample_host straight_bar)) () = Inr (0, 0, 10, 0)"
    by (simp add: getVertexesMinMaxXY_def fillet_basewire_def straight_bar_def sample_host_def
          minmax_step_def Let_def)
  show ?thesis
    using vp box
      zero_extent_division_by_zero [OF vp box, where max_height = 40 and max_width = 60
        and include_mark = True and rebar_stroke_width = "35 / 100"
        and dimension_font_size = 2 and scale = 1 and rebar_color_style = "''shape color''"
        and dimension_font_family = "''DejaVu Sans''"]
    by simp
qed

section \<open>Evaluating the sample rebars\<close>

lemmas sample_eval = getRebarShapeSVG_def resolve_view_plane_def shape_svg_on_plane_def
  getVertexesMinMaxXY_def fillet_basewire_def L_bar_def straight_bar_def bent_up_bar_def
  sample_host_def
  minmax_step_def Let_def shape_layout_def scaling_factor_cases bind_exn_simps canvas_height_def
  canvas_width_def py_round_def render_edge_def py_index_def dimension_rotation_def rebar_mark_def

lemma label_10: "edge_length_label 10 2 = ''10''"
  by (simp add: edge_length_label_def str_round_def float_repr_def float_repr_pos_def rstrip_def
        py_round_def Let_def digit_char_def nat_digits.simps)


lemma shape_layout_success:
  assumes "scaling_factor im sw fs scale mh mw (max_y - min_y) (max_x - min_x) = Inr s" "s \<noteq> 0"
  shows "\<exists>L. shape_layout im sw fs scale mh mw (min_x, min_y, max_x, max_y) = Inr L
           \<and> final_scale L = s
           \<and> svg_height L = canvas_height im sw fs s (max_y - min_y)
           \<and> svg_width L = canvas_width sw fs s (max_x - min_x)
           \<and> local_stroke_width L = sw / s \<and> local_font_size L = fs / s"
  using assms by (simp add: shape_layout_def bind_exn_simps Let_def)

section \<open>The explicit scale next to a single constraint\<close>

text \<open>
  Claim C1 (the docstring: "if max_height or max_width is set to non-zero value, then
  scale parameter will be ignored").  With \<open>max_height = 40\<close> and no \<open>max_width\<close>, the
  L-shaped sample bar (10 by 10) has the derived vertical factor 3.13, but the drawing is
  made with the \<open>scale\<close> parameter: the smaller of the two is taken, so \<open>scale = 1\<close> and
  \<open>scale = 2\<close> give different elements (scale 1 and canvas 13 by 17, scale 2 and canvas
  23 by 27).
\<close>

theorem explicit_scale_used_with_one_constraint:
  "getRebarShapeSVG sample_host L_bar (Vector 0 0 0) True (35 / 100) ''shape color'' ''DejaVu Sans''
      2 1 40 0 =
   ([], Inr (Element ''svg''
      [(''version'', AStr ''1.1''), (''width'', AMm 13), (''height'', AMm 17),
       (''viewBox'', AViewBox 13 17)]
      [Element ''g'' [(''id'', AStr ''Rebar''), (''transform'', AScaleTranslate 1 2 6)]
         [Element ''g'' []
            [LineSVG (0, 0) (10, 0) (7 / 20) ''black'', LineSVG (10, 0) (10, 10) (7 / 20) ''black''],
          Element ''g'' []
            [TextSVG (TStr ''10'') 5 (- (7 / 10)) ''DejaVu Sans'' 2 (Some ''middle'')
               [(''transform'', ARotate 0 5 0)],
             TextSVG (TStr ''10'') 10 (43 / 10) ''DejaVu Sans'' 2 (Some ''middle'')
               [(''transform'', ARotate (- 90) 10 5)]],
          TextSVG (TStr ''A'') 0 (- 3) ''DejaVu Sans'' 3 None []]]))
   \<and> getRebarShapeSVG sample_host L_bar (Vector 0 0 0) True (35 / 100) ''shape color'' ''DejaVu Sans''
      2 2 40 0 =
   ([], Inr (Element ''svg''
      [(''version'', AStr ''1.1''), (''width'', AMm 23), (''height'', AMm 27),
       (''viewBox'', AViewBox 23 27)]
      [Element ''g'' [(''id'', AStr ''Rebar''), (''transform'', AScaleTranslate 2 1 3)]
         [Element ''g'' []
            [LineSVG (0, 0) (10, 0) (7 / 40) ''black'', LineSVG (10, 0) (10, 10) (7 / 40) ''black''],
          Element ''g'' []
            [TextSVG (TStr ''10'') 5 (- (7 / 20)) ''DejaVu Sans'' 1 (Some ''middle'')
               [(''transform'', ARotate 0 5 0)],
             TextSVG (TStr ''10'') 10 (93 / 20) ''DejaVu Sans'' 1 (Some ''middle'')
               [(''transform'', ARotate (- 90) 10 5)]],
          TextSVG (TStr ''A'') 0 (- (3 / 2)) ''DejaVu Sans'' (3 / 2) None []]]))
   \<and> scaling_factor True (35 / 100) 2 1 40 0 10 10 = Inr 1
   \<and> scaling_factor True (35 / 100) 2 2 40 0 10 10 = Inr 2
   \<and> py_fdiv (40 - 2 * 4 - 2 * (35 / 100)) 10 = Inr (313 / 100)"
  by (simp add: sample_eval label_10 py_fdiv_def)


section \<open>Scale 2 against scale 1\<close>





section \<open>The fit guarantee\<close>

text \<open>
  Claim C4, as stated, fails for a negative stroke width: with stroke width -1, font
  size 2, \<open>max_height = 40\<close> and \<open>max_width = 60\<close>, a shape of 10 by 10 gets the canvas
  height 44, and the L-shaped sample bar is returned with the height attribute 44.
\<close>

theorem fit_guarantee_negative_stroke_counterexample:
  "shape_layout False (- 1) 2 1 40 60 (0, 0, 10, 10) =
     Inr \<lparr>final_scale = 19 / 5, svg_height = 44, svg_width = 44, translate_x = 0, translate_y = 0,
          local_stroke_width = - (5 / 19), local_font_size = 10 / 19\<rparr>
   \<and> \<not> (44 :: real) \<le> 40 \<and> py_round 44 = 44 \<and> py_round 40 = 40
   \<and> bind_exn (snd (getRebarShapeSVG sample_host L_bar (Vector 0 0 0) False (- 1) ''shape color''
                       ''DejaVu Sans'' 2 1 40 60)) (\<lambda>el. mm_attr el ''height'') = Inr 44"
  by (simp add: sample_eval label_10 mm_attr_def get_attr_def)


text \<open>
  Claim C4, amended.  For a stroke width that is not negative and a shape of positive
  projected height and width, the scale derivation returns a scale, and with it the
  canvas height is at most a non-zero \<open>max_height\<close> and the canvas width at most a
  non-zero \<open>max_width\<close>, also after rounding to the integers of the output attributes;
  these are the \<open>svg_height\<close> and \<open>svg_width\<close> of the layout (which exists when the scale
  is not zero).
\<close>

theorem fit_guarantee:
  assumes sw: "0 \<le> rebar_stroke_width" and h: "min_y < max_y" and w: "min_x < max_x"
  shows "\<exists>s. scaling_factor include_mark rebar_stroke_width dimension_font_size scale
              max_height max_width (max_y - min_y) (max_x - min_x) = Inr s
     \<and> (max_height \<noteq> 0 \<longrightarrow>
          canvas_height include_mark rebar_stroke_width dimension_font_size s (max_y - min_y)
            \<le> max_height
          \<and> py_round (canvas_height include_mark rebar_stroke_width dimension_font_size s
                        (max_y - min_y)) \<le> py_round max_height)
     \<and> (max_width \<noteq> 0 \<longrightarrow>
          canvas_width rebar_stroke_width dimension_font_size s (max_x - min_x) \<le> max_width
          \<and> py_round (canvas_width rebar_stroke_width dimension_font_size s (max_x - min_x))
              \<le> py_round max_width)
     \<and> (s \<noteq> 0 \<longrightarrow>
          (\<exists>L. shape_layout include_mark rebar_stroke_width dimension_font_size scale max_height
                  max_width (min_x, min_y, max_x, max_y) = Inr L
             \<and> svg_height L = canvas_height include_mark rebar_stroke_width dimension_font_size s
                                (max_y - min_y)
             \<and> svg_width L = canvas_width rebar_stroke_width dimension_font_size s
                               (max_x - min_x)))"
proof -
  define H where "H = max_y - min_y"
  define W where "W = max_x - min_x"
  define A where "A = dimension_font_size * (if include_mark then 4 else 2)"
  define vf where
    "vf = (if max_height \<noteq> 0 then (max_height - A - 2 * rebar_stroke_width) / H else scale)"
  define hf where
    "hf = (if max_width \<noteq> 0
           then (max_width - 2 * dimension_font_size - 2 * rebar_stroke_width) / W else scale)"
  have Hpos: "0 < H" and Wpos: "0 < W"
    using h w by (simp_all add: H_def W_def)
  have s: "scaling_factor include_mark rebar_stroke_width dimension_font_size scale
             max_height max_width H W = Inr (min hf vf)"
    using Hpos Wpos by (simp add: scaling_factor_cases hf_def vf_def A_def)
  have hgt: "canvas_height include_mark rebar_stroke_width dimension_font_size (min hf vf) H
               \<le> max_height" if "max_height \<noteq> 0"
  proof -
    have "H * min hf vf \<le> H * vf"
      using Hpos by (simp add: mult_left_mono)
    also have "H * vf = max_height - A - 2 * rebar_stroke_width"
      using that Hpos by (simp add: vf_def)
    finally show ?thesis
      using sw by (simp add: canvas_height_def A_def)
  qed
  have wid: "canvas_width rebar_stroke_width dimension_font_size (min hf vf) W \<le> max_width"
    if "max_width \<noteq> 0"
  proof -
    have "W * min hf vf \<le> W * hf"
      using Wpos by (simp add: mult_left_mono)
    also have "W * hf = max_width - 2 * dimension_font_size - 2 * rebar_stroke_width"
      using that Wpos by (simp add: hf_def)
    finally show ?thesis
      using sw by (simp add: canvas_width_def)
  qed
  have lay: "\<exists>L. shape_layout include_mark rebar_stroke_width dimension_font_size scale max_height
                   max_width (min_x, min_y, max_x, max_y) = Inr L
            \<and> svg_height L = canvas_height include_mark rebar_stroke_width dimension_font_size
                               (min hf vf) H
            \<and> svg_width L = canvas_width rebar_stroke_width dimension_font_size (min hf vf) W"
    if "min hf vf \<noteq> 0"
    using shape_layout_success [OF s [unfolded H_def W_def] that] by (auto simp: H_def W_def)
  show ?thesis
    unfolding H_def [symmetric] W_def [symmetric]
    using s hgt wid lay py_round_mono by (intro exI [of _ "min hf vf"]) (simp add: H_def W_def)
qed

theorem fit_guarantee_witness:
  "(0::real) \<le> 35 / 100 \<and> (0::real) < 10 \<and>
   (\<exists>s. scaling_factor False (35 / 100) 2 1 36 60 (10 - 0) (10 - 0) = Inr s
      \<and> canvas_height False (35 / 100) 2 s (10 - 0) \<le> 36
      \<and> canvas_width (35 / 100) 2 s (10 - 0) \<le> 60)"
  using fit_guarantee [of "35 / 100" 0 10 0 10 False 2 1 36 60] by auto

section \<open>Straight edges: a dot or a line\<close>

lemma render_edge_Line:
  assumes "geomType e = Line" "2 \<le> length (edge_Vertexes e)" "k < length ses"
  shows "render_edge H vp col sw fs fam rad prec ses k e =
     Inr (let p1 = getProjectionToSVGPlane H (edge_Vertexes e ! 0) vp;
              p2 = getProjectionToSVGPlane H (edge_Vertexes e ! 1) vp
          in if py_round (fst p1) = py_round (fst p2) \<and> py_round (snd p1) = py_round (snd p2)
             then PointSVG p1 (2 * sw) col else LineSVG p1 p2 sw col,
          [TextSVG (TStr (edge_length_label (edge_Length (ses ! k)) prec))
             ((fst (getProjectionToSVGPlane H (edge_Vertexes e ! 0) vp)
                + fst (getProjectionToSVGPlane H (edge_Vertexes e ! 1) vp)) / 2)
             ((snd (getProjectionToSVGPlane H (edge_Vertexes e ! 0) vp)
                + snd (getProjectionToSVGPlane H (edge_Vertexes e ! 1) vp)) / 2 - sw * 2)
             fam fs (Some ''middle'')
             [(''transform'',
               ARotate (dimension_rotation (getProjectionToSVGPlane H (edge_Vertexes e ! 0) vp)
                          (getProjectionToSVGPlane H (edge_Vertexes e ! 1) vp))
                 (py_round ((fst (getProjectionToSVGPlane H (edge_Vertexes e ! 0) vp)
                              + fst (getProjectionToSVGPlane H (edge_Vertexes e ! 1) vp)) / 2))
                 (py_round ((snd (getProjectionToSVGPlane H (edge_Vertexes e ! 0) vp)
                              + snd (getProjectionToSVGPlane H (edge_Vertexes e ! 1) vp)) / 2)))]],
          k + 1)"
  using assms by (auto simp: render_edge_def py_index_def bind_exn_simps Let_def)

lemma render_edge_not_Line:
  assumes "geomType e \<noteq> Line" "geomType e \<noteq> OtherGeom \<longrightarrow> 2 \<le> length (edge_Vertexes e)"
  shows "\<exists>x. render_edge H vp col sw fs fam rad prec ses k e = Inr (x, [], k)"
  using assms by (cases "geomType e") (auto simp: render_edge_def py_index_def bind_exn_simps Let_def)

lemma render_edges_straight:
  assumes wf: "\<forall>e\<in>set es. geomType e \<noteq> OtherGeom \<longrightarrow> 2 \<le> length (edge_Vertexes e)"
      and enough: "k + length (filter (\<lambda>e. geomType e = Line) es) \<le> length ses"
  shows "\<exists>esvgs dsvgs.
       render_edges H vp col sw fs fam rad prec ses k es = Inr (esvgs, dsvgs) \<and>
       length esvgs = length es \<and>
       (\<forall>i<length es. geomType (es ! i) = Line \<longrightarrow>
          esvgs ! i =
            (let p1 = getProjectionToSVGPlane H (edge_Vertexes (es ! i) ! 0) vp;
                 p2 = getProjectionToSVGPlane H (edge_Vertexes (es ! i) ! 1) vp
             in if py_round (fst p1) = py_round (fst p2) \<and> py_round (snd p1) = py_round (snd p2)
                then PointSVG p1 (2 * sw) col else LineSVG p1 p2 sw col))"
  using wf enough
proof (induction es arbitrary: k)
  case Nil
  then show ?case by simp
next
  case (Cons e es)
  have wf_e: "geomType e \<noteq> OtherGeom \<longrightarrow> 2 \<le> length (edge_Vertexes e)"
    and wf_es: "\<forall>e\<in>set es. geomType e \<noteq> OtherGeom \<longrightarrow> 2 \<le> length (edge_Vertexes e)"
    using Cons.prems(1) by simp_all
  show ?case
  proof (cases "geomType e = Line")
    case True
    then have k: "k < length ses" and rest: "(k + 1) + length (filter (\<lambda>e. geomType e = Line) es) \<le> length ses"
      using Cons.prems(2) by simp_all
    from Cons.IH[OF wf_es rest] obtain esvgs dsvgs where
      IH: "render_edges H vp col sw fs fam rad prec ses (k + 1) es = Inr (esvgs, dsvgs)"
          "length esvgs = length es"
          "\<forall>i<length es. geomType (es ! i) = Line \<longrightarrow>
             esvgs ! i =
               (let p1 = getProjectionToSVGPlane H (edge_Vertexes (es ! i) ! 0) vp;
                    p2 = getProjectionToSVGPlane H (edge_Vertexes (es ! i) ! 1) vp
                in if py_round (fst p1) = py_round (fst p2) \<and> py_round (snd p1) = py_round (snd p2)
                   then PointSVG p1 (2 * sw) col else LineSVG p1 p2 sw col)"
      by blast
    have two: "2 \<le> length (edge_Vertexes e)" using wf_e True by simp
    show ?thesis
      using IH by (simp add: render_edge_Line[OF True two k] nth_Cons' All_less_Suc2)
  next
    case False
    then have rest: "k + length (filter (\<lambda>e. geomType e = Line) es) \<le> length ses"
      using Cons.prems(2) by simp
    from Cons.IH[OF wf_es rest] obtain esvgs dsvgs where
      IH: "render_edges H vp col sw fs fam rad prec ses k es = Inr (esvgs, dsvgs)"
          "length esvgs = length es"
          "\<forall>i<length es. geomType (es ! i) = Line \<longrightarrow>
             esvgs ! i =
               (let p1 = getProjectionToSVGPlane H (edge_Vertexes (es ! i) ! 0) vp;
                    p2 = getProjectionToSVGPlane H (edge_Vertexes (es ! i) ! 1) vp
                in if py_round (fst p1) = py_round (fst p2) \<and> py_round (snd p1) = py_round (snd p2)
                   then PointSVG p1 (2 * sw) col else LineSVG p1 p2 sw col)"
      by blast
    from render_edge_not_Line[OF False wf_e, of H vp col sw fs fam rad prec ses k] obtain x where
      x: "render_edge H vp col sw fs fam rad prec ses k e = Inr (x, [], k)" by blast
    show ?thesis
      using IH False by (simp add: x nth_Cons' All_less_Suc2)
  qed
qed


lemma shape_svg_on_plane_drawn:
  assumes box: "getVertexesMinMaxXY H (wire_Vertexes (fillet_basewire H rebar)) vp = Inr box"
      and lay: "shape_layout im sw fs scale mh mw box = Inr L"
      and edges: "render_edges H vp (getRebarColor H rebar cs) (local_stroke_width L)
                    (local_font_size L) fam (Rounding rebar * Diameter rebar) (Decimals H)
                    (sortEdges H (wire_Edges (basewire rebar))) 0
                    (sortEdges H (wire_Edges (fillet_basewire H rebar))) = Inr (esvgs, dsvgs)"
  shows "shape_svg_on_plane H rebar vp im sw cs fam fs scale mh mw =
     Inr (Element ''svg''
            (set_attr ''viewBox''
               (AViewBox (of_int (py_round (svg_width L))) (of_int (py_round (svg_height L))))
            (set_attr ''height'' (AMm (of_int (py_round (svg_height L))))
            (set_attr ''width'' (AMm (of_int (py_round (svg_width L)))) (root_attrib H))))
            [Element ''g''
               [(''id'', AStr (Name rebar)),
                (''transform'', AScaleTranslate (final_scale L) (translate_x L) (translate_y L))]
               ([Element ''g'' [] esvgs, Element ''g'' [] dsvgs]
                @ (if im
                   then [TextSVG (rebar_mark rebar) (fst box)
                           (fst (snd box) - 1.5 * local_font_size L) fam
                           (1.5 * local_font_size L) None []]
                   else []))])"
  by (simp add: shape_svg_on_plane_def box lay edges bind_exn_simps Let_def)

lemma shape_layout_local_stroke:
  "shape_layout im sw fs scale mh mw box = Inr L \<Longrightarrow>
     local_stroke_width L = sw / final_scale L \<and> local_font_size L = fs / final_scale L \<and> final_scale L \<noteq> 0"
  by (cases box) (auto simp: shape_layout_def bind_exn_def Let_def split: sum.splits if_splits)

text \<open>
  Claim C7.  Once \<open>getRebarShapeSVG\<close> has its view plane, bounding box and layout, and
  every straight or curved edge of the filleted wire has its two endpoints and the
  unfilleted wire has an edge for every straight one, the function returns the drawing;
  its first group holds one element per edge, in the order of the edges.  For a straight
  edge this element is a filled dot of radius twice the stroke width in use (the
  requested stroke width divided by the scale) when both endpoints project to the same
  rounded integer coordinates on both axes, and a line otherwise.
\<close>

theorem straight_edge_dot_or_line:
  assumes vp: "resolve_view_plane H rebar view_direction = Some view_plane"
      and box: "getVertexesMinMaxXY H (wire_Vertexes (fillet_basewire H rebar)) view_plane = Inr box"
      and lay: "shape_layout include_mark rebar_stroke_width dimension_font_size scale max_height
                  max_width box = Inr L"
      and es: "es = sortEdges H (wire_Edges (fillet_basewire H rebar))"
      and wf: "\<forall>e\<in>set es. geomType e \<noteq> OtherGeom \<longrightarrow> 2 \<le> length (edge_Vertexes e)"
      and enough: "length (filter (\<lambda>e. geomType e = Line) es)
                     \<le> length (sortEdges H (wire_Edges (basewire rebar)))"
  shows "\<exists>attrs gattrs esvgs others.
       getRebarShapeSVG H rebar view_direction include_mark rebar_stroke_width rebar_color_style
         dimension_font_family dimension_font_size scale max_height max_width =
       ([], Inr (Element ''svg'' attrs [Element ''g'' gattrs (Element ''g'' [] esvgs # others)])) \<and>
       length esvgs = length es \<and>
       local_stroke_width L = rebar_stroke_width / final_scale L \<and>
       (\<forall>i<length es. geomType (es ! i) = Line \<longrightarrow>
          esvgs ! i =
            (let p1 = getProjectionToSVGPlane H (edge_Vertexes (es ! i) ! 0) view_plane;
                 p2 = getProjectionToSVGPlane H (edge_Vertexes (es ! i) ! 1) view_plane
             in if py_round (fst p1) = py_round (fst p2) \<and> py_round (snd p1) = py_round (snd p2)
                then PointSVG p1 (2 * local_stroke_width L) (getRebarColor H rebar rebar_color_style)
                else LineSVG p1 p2 (local_stroke_width L) (getRebarColor H rebar rebar_color_style)))"
proof -
  have enough0: "0 + length (filter (\<lambda>e. geomType e = Line) es)
                   \<le> length (sortEdges H (wire_Edges (basewire rebar)))"
    using enough by simp
  from render_edges_straight[OF wf enough0, of H view_plane "getRebarColor H rebar rebar_color_style"
         "local_stroke_width L" "local_font_size L" dimension_font_family
         "Rounding rebar * Diameter rebar" "Decimals H"]
  obtain esvgs dsvgs where
    run: "render_edges H view_plane (getRebarColor H rebar rebar_color_style) (local_stroke_width L)
            (local_font_size L) dimension_font_family (Rounding rebar * Diameter rebar) (Decimals H)
            (sortEdges H (wire_Edges (basewire rebar))) 0 es = Inr (esvgs, dsvgs)"
    and len: "length esvgs = length es"
    and elems: "\<forall>i<length es. geomType (es ! i) = Line \<longrightarrow>
          esvgs ! i =
            (let p1 = getProjectionToSVGPlane H (edge_Vertexes (es ! i) ! 0) view_plane;
                 p2 = getProjectionToSVGPlane H (edge_Vertexes (es ! i) ! 1) view_plane
             in if py_round (fst p1) = py_round (fst p2) \<and> py_round (snd p1) = py_round (snd p2)
                then PointSVG p1 (2 * local_stroke_width L) (getRebarColor H rebar rebar_color_style)
                else LineSVG p1 p2 (local_stroke_width L) (getRebarColor H rebar rebar_color_style))"
    by blast
  have res: "getRebarShapeSVG H rebar view_direction include_mark rebar_stroke_width
               rebar_color_style dimension_font_family dimension_font_size scale max_height max_width =
             ([], shape_svg_on_plane H rebar view_plane include_mark rebar_stroke_width
                    rebar_color_style dimension_font_family dimension_font_size scale
                    max_height max_width)"
    by (simp add: getRebarShapeSVG_def vp)
  show ?thesis
    unfolding res shape_svg_on_plane_drawn[OF box lay run[unfolded es]]
    using len elems shape_layout_local_stroke[OF lay] by auto
qed

theorem straight_edge_dot_or_line_witness:
  "\<exists>attrs gattrs esvgs others.
     getRebarShapeSVG sample_host bent_up_bar (Vector 0 0 0) True (35 / 100) ''shape color''
       ''DejaVu Sans'' 2 1 0 0 =
     ([], Inr (Element ''svg'' attrs [Element ''g'' gattrs (Element ''g'' [] esvgs # others)])) \<and>
     length esvgs = 3 \<and>
     esvgs ! 0 = LineSVG (0, 0) (10, 0) (35 / 100) ''black'' \<and>
     esvgs ! 1 = PointSVG (10, 0) (2 * (35 / 100)) ''black'' \<and>
     esvgs ! 2 = LineSVG (10, 0) (10, 10) (35 / 100) ''black''"
proof -
  let ?L = "\<lparr>final_scale = 1, svg_height = 173 / 10, svg_width = 133 / 10, translate_x = 2,
             translate_y = 6, local_stroke_width = 35 / 100, local_font_size = 2\<rparr>"
  let ?es = "wire_Edges (basewire bent_up_bar)"
  have vp: "resolve_view_plane sample_host bent_up_bar (Vector 0 0 0) = Some ()"
    by (simp add: resolve_view_plane_def)
  have box: "getVertexesMinMaxXY sample_host
               (wire_Vertexes (fillet_basewire sample_host bent_up_bar)) () = Inr (0, 0, 10, 10)"
    by (simp add: sample_eval)
  have lay: "shape_layout True (35 / 100) 2 1 0 0 (0, 0, 10, 10) = Inr ?L"
    by (simp add: sample_eval)
  have es: "?es = sortEdges sample_host (wire_Edges (fillet_basewire sample_host bent_up_bar))"
    by (simp add: sample_eval)
  have wf: "\<forall>e\<in>set ?es. geomType e \<noteq> OtherGeom \<longrightarrow> 2 \<le> length (edge_Vertexes e)"
    by (simp add: bent_up_bar_def)
  have enough: "length (filter (\<lambda>e. geomType e = Line) ?es)
                  \<le> length (sortEdges sample_host (wire_Edges (basewire bent_up_bar)))"
    by (simp add: bent_up_bar_def sample_host_def)
  from straight_edge_dot_or_line [OF vp box lay es wf enough, of "''shape color''" "''DejaVu Sans''"]
  obtain attrs gattrs esvgs others where
    r: "getRebarShapeSVG sample_host bent_up_bar (Vector 0 0 0) True (35 / 100) ''shape color''
          ''DejaVu Sans'' 2 1 0 0 =
        ([], Inr (Element ''svg'' attrs [Element ''g'' gattrs (Element ''g'' [] esvgs # others)]))"
    and len: "length esvgs = length ?es"
    and elems: "\<forall>i<length ?es. geomType (?es ! i) = Line \<longrightarrow>
          esvgs ! i =
            (let p1 = getProjectionToSVGPlane sample_host (edge_Vertexes (?es ! i) ! 0) ();
                 p2 = getProjectionToSVGPlane sample_host (edge_Vertexes (?es ! i) ! 1) ()
             in if py_round (fst p1) = py_round (fst p2) \<and> py_round (snd p1) = py_round (snd p2)
                then PointSVG p1 (2 * local_stroke_width ?L)
                       (getRebarColor sample_host bent_up_bar ''shape color'')
                else LineSVG p1 p2 (local_stroke_width ?L)
                       (getRebarColor sample_host bent_up_bar ''shape color''))"
    by blast
  have "esvgs ! 0 = LineSVG (0, 0) (10, 0) (35 / 100) ''black''"
    using elems[rule_format, of 0] by (simp add: bent_up_bar_def sample_host_def py_round_def Let_def)
  moreover have "esvgs ! 1 = PointSVG (10, 0) (2 * (35 / 100)) ''black''"
    using elems[rule_format, of 1] by (simp add: bent_up_bar_def sample_host_def py_round_def Let_def)
  moreover have "esvgs ! 2 = LineSVG (10, 0) (10, 10) (35 / 100) ''black''"
    using elems[rule_format, of 2] by (simp add: bent_up_bar_def sample_host_def py_round_def Let_def)
  moreover have "length esvgs = 3" using len by (simp add: bent_up_bar_def)
  ultimately show ?thesis using r by blast
qed

section \<open>The cut list: rows and height\<close>

lemmas cut_eval = getRebarShapeCutList_def pad_view_directions_def list_extend_def py_iterate_def
  int_times_vector_def view_direction_at_def cut_list_row_def mm_attr_def get_attr_def find_g_def
  find_shape_group_def quote_char_def
  py_str_int_def nat_digits.simps digit_char_def

lemmas label_eval = edge_length_label_def str_round_def float_repr_def float_repr_pos_def rstrip_def
  py_round_def Let_def digit_char_def nat_digits.simps exponent_str_def

lemma map_of_set_attr:
  "map_of (set_attr k v kvs) k' = (if k' = k then Some v else map_of kvs k')"
  by (induction kvs) auto

lemma shape_svg_on_plane_Inr:
  assumes "shape_svg_on_plane H rebar vp im sw cs fam fs scale mh mw = Inr svg"
  shows "\<exists>w h attrs gattrs kids.
           svg = Element ''svg'' attrs [Element ''g'' ((''id'', AStr (Name rebar)) # gattrs) kids]
           \<and> map_of attrs ''width'' = Some (AMm w) \<and> map_of attrs ''height'' = Some (AMm h)"
  using assms
  by (auto simp: shape_svg_on_plane_def bind_exn_def Let_def map_of_set_attr split: sum.splits)

lemma cut_list_row_success:
  assumes vp: "resolve_view_plane H rebar vd = Some vp"
      and svg: "shape_svg_on_plane H rebar vp False sw cs fam fs 1 max_h width = Inr svg"
      and nq: "quote_char \<notin> set (Name rebar)"
  shows "\<exists>tx ty shape_g marks.
           cut_list_row H im sw cs fam fs row_height width max_h i rebar vd =
             ([], Inr (Element ''g'' [(''transform'', ATranslate 0 (of_nat i * row_height))]
                         (RectangleSVG 0 0 width row_height (''row_'' @ py_str_int (int i))
                          # Element ''g'' [(''transform'', ATranslate tx ty)] [shape_g] # marks)))
           \<and> find_g svg (Name rebar) = Some shape_g \<and> is_g_with_id (Name rebar) shape_g"
proof -
  from shape_svg_on_plane_Inr[OF svg] obtain w h attrs gattrs kids where
    form: "svg = Element ''svg'' attrs [Element ''g'' ((''id'', AStr (Name rebar)) # gattrs) kids]"
    and w: "map_of attrs ''width'' = Some (AMm w)" and h: "map_of attrs ''height'' = Some (AMm h)"
    by blast
  have run: "cut_list_row H im sw cs fam fs row_height width max_h i rebar vd =
             ([], Inr (Element ''g'' [(''transform'', ATranslate 0 (of_nat i * row_height))]
                         (RectangleSVG 0 0 width row_height (''row_'' @ py_str_int (int i))
                          # Element ''g''
                              [(''transform'',
                                ATranslate ((width - w) / 2)
                                  ((max_h - h) / 2 + (if im then 2 * fs else 0)))]
                              [Element ''g'' ((''id'', AStr (Name rebar)) # gattrs) kids]
                          # (if im then [TextSVG (rebar_mark rebar) 2 (2 * fs) fam (1.5 * fs) None []]
                             else []))))"
    by (simp add: cut_list_row_def getRebarShapeSVG_def vp svg bind_exn_simps form mm_attr_def
          get_attr_def w h find_g_def find_shape_group_def nq)
  have g: "find_g svg (Name rebar) = Some (Element ''g'' ((''id'', AStr (Name rebar)) # gattrs) kids)"
    by (simp add: form find_g_def)
  show ?thesis
    unfolding run g by (intro exI conjI) (rule refl, rule refl, simp)
qed

lemma cut_list_rows_success:
  assumes "\<forall>j<length bars. \<exists>vd vp svg.
             view_direction_at vds (i + j) = Inr vd \<and> resolve_view_plane H (bars ! j) vd = Some vp \<and>
             shape_svg_on_plane H (bars ! j) vp False sw cs fam fs 1 max_h width = Inr svg"
      and "\<forall>j<length bars. quote_char \<notin> set (Name (bars ! j))"
  shows "\<exists>rows. cut_list_rows H im sw cs fam fs row_height width max_h vds i bars = ([], Inr rows)
           \<and> length rows = length bars
           \<and> (\<forall>j<length bars. \<exists>tx ty shape_g marks.
                 rows ! j =
                   Element ''g'' [(''transform'', ATranslate 0 (of_nat (i + j) * row_height))]
                     (RectangleSVG 0 0 width row_height (''row_'' @ py_str_int (int (i + j)))
                      # Element ''g'' [(''transform'', ATranslate tx ty)] [shape_g] # marks)
                 \<and> is_g_with_id (Name (bars ! j)) shape_g)"
  using assms
proof (induction bars arbitrary: i)
  case Nil
  then show ?case by simp
next
  case (Cons bar bars)
  from Cons.prems(1)[rule_format, of 0] obtain vd vp svg where
    vd: "view_direction_at vds i = Inr vd" and vp: "resolve_view_plane H bar vd = Some vp"
    and svg: "shape_svg_on_plane H bar vp False sw cs fam fs 1 max_h width = Inr svg"
    by auto
  have nq: "quote_char \<notin> set (Name bar)"
    using Cons.prems(2)[rule_format, of 0] by simp
  from cut_list_row_success[OF vp svg nq, of im row_height i] obtain tx ty shape_g marks where
    row: "cut_list_row H im sw cs fam fs row_height width max_h i bar vd =
             ([], Inr (Element ''g'' [(''transform'', ATranslate 0 (of_nat i * row_height))]
                         (RectangleSVG 0 0 width row_height (''row_'' @ py_str_int (int i))
                          # Element ''g'' [(''transform'', ATranslate tx ty)] [shape_g] # marks)))"
    and g: "is_g_with_id (Name bar) shape_g"
    by blast
  have rest: "\<forall>j<length bars. \<exists>vd vp svg.
             view_direction_at vds (Suc i + j) = Inr vd \<and> resolve_view_plane H (bars ! j) vd = Some vp \<and>
             shape_svg_on_plane H (bars ! j) vp False sw cs fam fs 1 max_h width = Inr svg"
  proof (intro allI impI)
    fix j assume "j < length bars"
    then have "Suc j < length (bar # bars)" by simp
    from Cons.prems(1)[rule_format, OF this] show "\<exists>vd vp svg.
             view_direction_at vds (Suc i + j) = Inr vd \<and> resolve_view_plane H (bars ! j) vd = Some vp \<and>
             shape_svg_on_plane H (bars ! j) vp False sw cs fam fs 1 max_h width = Inr svg"
      by simp
  qed
  have rest_names: "\<forall>j<length bars. quote_char \<notin> set (Name (bars ! j))"
  proof (intro allI impI)
    fix j assume "j < length bars"
    then have "Suc j < length (bar # bars)" by simp
    from Cons.prems(2)[rule_format, OF this] show "quote_char \<notin> set (Name (bars ! j))"
      by simp
  qed
  from Cons.IH[OF rest rest_names] obtain rows where
    rows: "cut_list_rows H im sw cs fam fs row_height width max_h vds (Suc i) bars = ([], Inr rows)"
    and len: "length rows = length bars"
    and each: "\<forall>j<length bars. \<exists>tx ty shape_g marks.
                 rows ! j =
                   Element ''g'' [(''transform'', ATranslate 0 (of_nat (Suc i + j) * row_height))]
                     (RectangleSVG 0 0 width row_height (''row_'' @ py_str_int (int (Suc i + j)))
                      # Element ''g'' [(''transform'', ATranslate tx ty)] [shape_g] # marks)
                 \<and> is_g_with_id (Name (bars ! j)) shape_g"
    by blast
  define row0 where "row0 = Element ''g'' [(''transform'', ATranslate 0 (of_nat i * row_height))]
                         (RectangleSVG 0 0 width row_height (''row_'' @ py_str_int (int i))
                          # Element ''g'' [(''transform'', ATranslate tx ty)] [shape_g] # marks)"
  have run: "cut_list_rows H im sw cs fam fs row_height width max_h vds i (bar # bars) =
               ([], Inr (row0 # rows))"
    by (simp add: vd row rows row0_def)
  have all: "\<exists>tx' ty' shape_g' marks'.
            (row0 # rows) ! j =
              Element ''g'' [(''transform'', ATranslate 0 (of_nat (i + j) * row_height))]
                (RectangleSVG 0 0 width row_height (''row_'' @ py_str_int (int (i + j)))
                 # Element ''g'' [(''transform'', ATranslate tx' ty')] [shape_g'] # marks')
            \<and> is_g_with_id (Name ((bar # bars) ! j)) shape_g'" if j: "j < length (bar # bars)" for j
  proof (cases j)
    case 0
    then show ?thesis using g by (simp add: row0_def)
  next
    case (Suc j')
    then have "j' < length bars" using j by simp
    from each[rule_format, OF this] show ?thesis using Suc by simp
  qed
  show ?case
    using run len all by (intro exI[of _ "row0 # rows"]) simp
qed

text \<open>
  Claim C8.  For the bar list that holds the straight sample bar, whose projection has
  height zero, \<open>getRebarShapeCutList\<close> raises ZeroDivisionError and returns no document:
  the shape is drawn with \<open>max_height = 36\<close> and \<open>max_width = 60\<close>, and the scale
  derivation divides by the height.  Drawn without max constraints, the same bar gets
  its drawing (canvas 13 by 3).  A bar whose view direction in the list is invalid ends
  the call as well, with AttributeError, after the error message is printed.
\<close>

theorem cut_list_straight_bar_raises:
  "[straight_bar] \<noteq> [] \<and>
   getRebarShapeCutList sample_host (Some [straight_bar]) (VDObj (Vector 0 0 0)) True (35 / 100)
     ''shape color'' ''DejaVu Sans'' 2 40 60 = ([], Inl ZeroDivisionError) \<and>
   getRebarShapeSVG sample_host straight_bar (Vector 0 0 0) False (35 / 100) ''shape color''
     ''DejaVu Sans'' 2 1 0 0 =
   ([], Inr (Element ''svg''
      [(''version'', AStr ''1.1''), (''width'', AMm 13), (''height'', AMm 3),
       (''viewBox'', AViewBox 13 3)]
      [Element ''g'' [(''id'', AStr ''Rebar001''), (''transform'', AScaleTranslate 1 2 2)]
         [Element ''g'' [] [LineSVG (0, 0) (10, 0) (7 / 20) ''black''],
          Element ''g'' []
            [TextSVG (TStr ''10'') 5 (- (7 / 10)) ''DejaVu Sans'' 2 (Some ''middle'')
               [(''transform'', ARotate 0 5 0)]]]])) \<and>
   getRebarShapeCutList sample_host (Some [L_bar]) (VDList [PyNone]) True (35 / 100)
     ''shape color'' ''DejaVu Sans'' 2 40 60 =
   ([invalid_view_direction_message], Inl AttributeError)"
  by (simp add: cut_eval sample_eval label_10 py_fdiv_def bind_exn_simps)

text \<open>
  Where the call does return, the layout is the one described: for every non-empty bar
  list in which no bar's name holds a single quote and each bar's shape is drawn
  (\<open>getRebarShapeSVG\<close>, called as the composer calls it with the bar's view direction,
  returns an element and prints no error), \<open>getRebarShapeCutList\<close> returns a document
  with exactly one row per bar, in input order: row \<open>i\<close> is a group translated by
  \<open>i * row_height\<close> that holds the border \<open>row_i\<close> and the shape group with the id of
  bar \<open>i\<close>.  The document's width is \<open>width\<close>, and its height and the height of its
  viewBox are \<open>row_height\<close> times the number of bars.
\<close>

lemma cut_list_rows_and_height:
  assumes ne: "bars \<noteq> []"
      and pad: "pad_view_directions view_directions (length bars) = Inr vds"
      and names: "\<forall>i<length bars. quote_char \<notin> set (Name (bars ! i))"
      and renders: "\<forall>i<length bars. \<exists>vd svg.
             view_direction_at vds i = Inr vd \<and>
             getRebarShapeSVG H (bars ! i) vd False rebars_stroke_width rebars_color_style
               dimension_font_family dimension_font_size 1
               (if include_mark then row_height - 2 * dimension_font_size else row_height) width =
             ([], Inr svg)"
  shows "\<exists>attrs rows.
       getRebarShapeCutList H (Some bars) view_directions include_mark rebars_stroke_width
         rebars_color_style dimension_font_family dimension_font_size row_height width =
       ([], Inr (Element ''svg'' attrs rows))
     \<and> length rows = length bars
     \<and> map_of attrs ''width'' = Some (AMm width)
     \<and> map_of attrs ''height'' = Some (AMm (row_height * of_nat (length bars)))
     \<and> map_of attrs ''viewBox'' = Some (AViewBox width (row_height * of_nat (length bars)))
     \<and> (\<forall>i<length bars. \<exists>tx ty shape_g marks.
           rows ! i =
             Element ''g'' [(''transform'', ATranslate 0 (of_nat i * row_height))]
               (RectangleSVG 0 0 width row_height (''row_'' @ py_str_int (int i))
                # Element ''g'' [(''transform'', ATranslate tx ty)] [shape_g] # marks)
           \<and> is_g_with_id (Name (bars ! i)) shape_g)"
proof -
  define max_h where
    "max_h = (if include_mark then row_height - 2 * dimension_font_size else row_height)"
  have each: "\<forall>j<length bars. \<exists>vd vp svg.
             view_direction_at vds (0 + j) = Inr vd \<and> resolve_view_plane H (bars ! j) vd = Some vp \<and>
             shape_svg_on_plane H (bars ! j) vp False rebars_stroke_width rebars_color_style
               dimension_font_family dimension_font_size 1 max_h width = Inr svg"
  proof (intro allI impI)
    fix j assume "j < length bars"
    from renders[rule_format, OF this] obtain vd svg where
      vd: "view_direction_at vds j = Inr vd"
      and r: "getRebarShapeSVG H (bars ! j) vd False rebars_stroke_width rebars_color_style
               dimension_font_family dimension_font_size 1 max_h width = ([], Inr svg)"
      unfolding max_h_def by blast
    from r obtain vp where "resolve_view_plane H (bars ! j) vd = Some vp"
      and "shape_svg_on_plane H (bars ! j) vp False rebars_stroke_width rebars_color_style
               dimension_font_family dimension_font_size 1 max_h width = Inr svg"
      by (cases "resolve_view_plane H (bars ! j) vd") (simp_all add: getRebarShapeSVG_def)
    then show "\<exists>vd vp svg.
             view_direction_at vds (0 + j) = Inr vd \<and> resolve_view_plane H (bars ! j) vd = Some vp \<and>
             shape_svg_on_plane H (bars ! j) vp False rebars_stroke_width rebars_color_style
               dimension_font_family dimension_font_size 1 max_h width = Inr svg"
      using vd by auto
  qed
  from cut_list_rows_success[OF each names, of include_mark row_height] obtain rows where
    rows: "cut_list_rows H include_mark rebars_stroke_width rebars_color_style dimension_font_family
             dimension_font_size row_height width max_h vds 0 bars = ([], Inr rows)"
    and len: "length rows = length bars"
    and form: "\<forall>j<length bars. \<exists>tx ty shape_g marks.
                 rows ! j =
                   Element ''g'' [(''transform'', ATranslate 0 (of_nat (0 + j) * row_height))]
                     (RectangleSVG 0 0 width row_height (''row_'' @ py_str_int (int (0 + j)))
                      # Element ''g'' [(''transform'', ATranslate tx ty)] [shape_g] # marks)
                 \<and> is_g_with_id (Name (bars ! j)) shape_g"
    by blast
  have run: "getRebarShapeCutList H (Some bars) view_directions include_mark rebars_stroke_width
         rebars_color_style dimension_font_family dimension_font_size row_height width =
       ([], Inr (Element ''svg''
                   (set_attr ''viewBox'' (AViewBox width (row_height * of_nat (length bars)))
                   (set_attr ''height'' (AMm (row_height * of_nat (length bars)))
                   (set_attr ''width'' (AMm width) (root_attrib H))))
                   rows))"
    using ne rows by (simp add: getRebarShapeCutList_def pad max_h_def)
  show ?thesis
    unfolding run using len form by (intro exI conjI) (rule refl, simp_all add: map_of_set_attr)
qed

lemma cut_list_rows_and_height_sample:
  "[L_bar, bent_up_bar] \<noteq> [] \<and>
   pad_view_directions (VDObj (Vector 0 0 0 :: unit pyobj)) (length [L_bar, bent_up_bar]) =
     Inr (VDList [Vector 0 0 0, Vector 0 0 0]) \<and>
   (\<exists>attrs rows.
       getRebarShapeCutList sample_host (Some [L_bar, bent_up_bar]) (VDObj (Vector 0 0 0)) True
         (35 / 100) ''shape color'' ''DejaVu Sans'' 2 40 60 =
       ([], Inr (Element ''svg'' attrs rows))
     \<and> length rows = 2
     \<and> map_of attrs ''height'' = Some (AMm 80)
     \<and> map_of attrs ''viewBox'' = Some (AViewBox 60 80)
     \<and> (\<exists>tx ty shape_g marks.
           rows ! 1 =
             Element ''g'' [(''transform'', ATranslate 0 40)]
               (RectangleSVG 0 0 60 40 ''row_1''
                # Element ''g'' [(''transform'', ATranslate tx ty)] [shape_g] # marks)
           \<and> is_g_with_id ''Rebar002'' shape_g))"
proof -
  have ne: "[L_bar, bent_up_bar] \<noteq> []" by simp
  have pad: "pad_view_directions (VDObj (Vector 0 0 0 :: unit pyobj)) (length [L_bar, bent_up_bar]) =
     Inr (VDList [Vector 0 0 0, Vector 0 0 0])"
    by (simp add: pad_view_directions_def numeral_2_eq_2)
  have names: "\<forall>i<length [L_bar, bent_up_bar]. quote_char \<notin> set (Name ([L_bar, bent_up_bar] ! i))"
    by (simp add: All_less_Suc L_bar_def bent_up_bar_def quote_char_def)
  have renders: "\<forall>i<length [L_bar, bent_up_bar]. \<exists>vd svg.
             view_direction_at (VDList [Vector 0 0 0, Vector 0 0 0]) i = Inr vd \<and>
             getRebarShapeSVG sample_host ([L_bar, bent_up_bar] ! i) vd False (35 / 100)
               ''shape color'' ''DejaVu Sans'' 2 1 (if True then 40 - 2 * 2 else 40) 60 =
             ([], Inr svg)"
    by (simp add: All_less_Suc view_direction_at_def sample_eval label_eval py_fdiv_def)
  from cut_list_rows_and_height [OF ne pad names renders]
  obtain attrs rows where
    r: "getRebarShapeCutList sample_host (Some [L_bar, bent_up_bar]) (VDObj (Vector 0 0 0)) True
         (35 / 100) ''shape color'' ''DejaVu Sans'' 2 40 60 = ([], Inr (Element ''svg'' attrs rows))"
    and len: "length rows = length [L_bar, bent_up_bar]"
    and h: "map_of attrs ''height'' = Some (AMm (40 * of_nat (length [L_bar, bent_up_bar])))"
    and v: "map_of attrs ''viewBox'' = Some (AViewBox 60 (40 * of_nat (length [L_bar, bent_up_bar])))"
    and each: "\<forall>i<length [L_bar, bent_up_bar]. \<exists>tx ty shape_g marks.
           rows ! i =
             Element ''g'' [(''transform'', ATranslate 0 (of_nat i * 40))]
               (RectangleSVG 0 0 60 40 (''row_'' @ py_str_int (int i))
                # Element ''g'' [(''transform'', ATranslate tx ty)] [shape_g] # marks)
           \<and> is_g_with_id (Name ([L_bar, bent_up_bar] ! i)) shape_g"
    by blast
  from each[rule_format, of 1] have row1: "\<exists>tx ty shape_g marks.
           rows ! 1 =
             Element ''g'' [(''transform'', ATranslate 0 40)]
               (RectangleSVG 0 0 60 40 ''row_1''
                # Element ''g'' [(''transform'', ATranslate tx ty)] [shape_g] # marks)
           \<and> is_g_with_id ''Rebar002'' shape_g"
    by (simp add: py_str_int_def nat_digits.simps digit_char_def bent_up_bar_def)
  show ?thesis
    using ne pad r len h v row1 by (intro conjI exI[of _ attrs] exI[of _ rows]) simp_all
qed

text \<open>
  A bar whose name holds a single quote gets no row: looking up its group raises, here
  SyntaxError for the name \<open>Re'bar\<close>.
\<close>

lemma quoted_name_raises:
  "find_shape_group H el (''Re'' @ [quote_char] @ ''bar'') = Inl SyntaxError"
  by (simp add: find_shape_group_def quote_char_def)

section \<open>Dimension labels\<close>

text \<open>
  Claim C5.  A straight edge of length 1.5e20 with precision 2: the rounded length
  prints as \<open>1.5e+20\<close>, which has a decimal point, so the trailing zero of the exponent
  is stripped and the label is \<open>1.5e+2\<close> (which reads back as 150, the label of an edge
  of length 150).  For lengths printed in positional notation the label is as the
  specification's examples say: 50.00 gives \<open>50\<close> and 33.333 gives \<open>33.33\<close>.
\<close>

theorem exponent_notation_label_loses_zeros:
  "str_round 150000000000000000000 2 = ''1.5e+20''
   \<and> edge_length_label 150000000000000000000 2 = ''1.5e+2''
   \<and> edge_length_label 150 2 = ''150''
   \<and> edge_length_label 50 2 = ''50''
   \<and> edge_length_label (33333 / 1000) 2 = ''33.33''
   \<and> render_edge sample_host () ''black'' (35 / 100) 2 ''DejaVu Sans'' 0 2
        [\<lparr>geomType = Line, edge_Vertexes = [(0, 0, 0), (150000000000000000000, 0, 0)],
          edge_Length = 150000000000000000000\<rparr>] 0
        \<lparr>geomType = Line, edge_Vertexes = [(0, 0, 0), (150000000000000000000, 0, 0)],
          edge_Length = 150000000000000000000\<rparr> =
      Inr (LineSVG (0, 0) (150000000000000000000, 0) (35 / 100) ''black'',
           [TextSVG (TStr ''1.5e+2'') 75000000000000000000 (- (7 / 10)) ''DejaVu Sans'' 2
              (Some ''middle'') [(''transform'', ARotate 0 75000000000000000000 0)]],
           1)"
  by (simp add: label_eval render_edge_def py_index_def bind_exn_simps sample_host_def
        dimension_rotation_def)

section \<open>A list of view directions shorter than the bar list\<close>

text \<open>
  Claim C2.  With two bars and the one-element list \<open>[Vector(0, 0, 0)]\<close>, the list is
  extended by the three coordinates of \<open>1 * Vector(0, 0, 0)\<close>, that is by three floats
  and not by a zero vector; the second bar is then drawn with the view direction \<open>0.0\<close>,
  which is invalid, and reading the width of the empty fragment raises AttributeError.
  With the list written out as two zero vectors the same call returns a document of two
  rows.
\<close>

theorem short_view_directions_list_raises:
  "pad_view_directions (VDList [Vector 0 0 0 :: unit pyobj]) 2 =
     Inr (VDList [Vector 0 0 0, PyFloat 0, PyFloat 0, PyFloat 0])
   \<and> getRebarShapeCutList sample_host (Some [L_bar, bent_up_bar]) (VDList [Vector 0 0 0]) True
       (35 / 100) ''shape color'' ''DejaVu Sans'' 2 40 60 =
     ([invalid_view_direction_message], Inl AttributeError)
   \<and> (case snd (getRebarShapeCutList sample_host (Some [L_bar, bent_up_bar])
                  (VDList [Vector 0 0 0, Vector 0 0 0]) True (35 / 100) ''shape color''
                  ''DejaVu Sans'' 2 40 60) of
        Inr (Element tag attrs rows) \<Rightarrow> length rows = 2
      | _ \<Rightarrow> False)"
  by (simp add: cut_eval sample_eval label_eval py_fdiv_def bind_exn_simps)


text \<open>
  More generally, a list of view directions shorter than the bar list never gives a
  document: the call raises.
\<close>

lemma cut_list_row_float:
  "cut_list_row H im sw cs fam fs row_height width max_h i rebar (PyFloat x) =
     ([invalid_view_direction_message], Inl AttributeError)"
  by (simp add: cut_list_row_def getRebarShapeSVG_def resolve_view_plane_def bind_exn_simps
        mm_attr_def get_attr_def)

lemma cut_list_rows_float:
  "j < length bars \<Longrightarrow> view_direction_at vds (i + j) = Inr (PyFloat x) \<Longrightarrow>
     \<exists>e. snd (cut_list_rows H im sw cs fam fs row_height width max_h vds i bars) = Inl e"
proof (induction bars arbitrary: i j)
  case Nil
  then show ?case by simp
next
  case (Cons bar bars)
  show ?case
  proof (cases j)
    case 0
    then show ?thesis using Cons.prems by (simp add: cut_list_row_float)
  next
    case (Suc j')
    then have "j' < length bars" and "view_direction_at vds (Suc i + j') = Inr (PyFloat x)"
      using Cons.prems by simp_all
    from Cons.IH[OF this] obtain e where
      "snd (cut_list_rows H im sw cs fam fs row_height width max_h vds (Suc i) bars) = Inl e"
      by blast
    then show ?thesis
      by (auto split: sum.splits prod.splits)
  qed
qed

lemma short_view_directions_list_never_returns:
  assumes "length vds < length bars"
  shows "\<exists>e. snd (getRebarShapeCutList H (Some bars) (VDList vds) im sw cs fam fs row_height width)
           = Inl e"
proof -
  have ne: "bars \<noteq> []" using assms by auto
  have pad: "pad_view_directions (VDList vds) (length bars) =
               Inr (VDList (vds @ [PyFloat 0, PyFloat 0, PyFloat 0]))"
    using assms
    by (simp add: pad_view_directions_def list_extend_def py_iterate_def int_times_vector_def
          bind_exn_simps)
  have at: "view_direction_at (VDList (vds @ [PyFloat 0, PyFloat 0, PyFloat 0])) (0 + length vds)
              = Inr (PyFloat 0)"
    by (simp add: view_direction_at_def py_index_def nth_append)
  define R where "R = cut_list_rows H im sw cs fam fs row_height width
            (if im then row_height - 2 * fs else row_height)
            (VDList (vds @ [PyFloat 0, PyFloat 0, PyFloat 0])) 0 bars"
  from cut_list_rows_float[OF assms at] obtain e where e: "snd R = Inl e"
    unfolding R_def by blast
  have "getRebarShapeCutList H (Some bars) (VDList vds) im sw cs fam fs row_height width =
          (fst R, Inl e)"
    using ne e by (cases R) (simp add: getRebarShapeCutList_def pad R_def [symmetric])
  then show ?thesis by simp
qed


end
